theory Spec2Isabelle
  imports Main "HOL-Library.Sublist"
begin

section \<open>Data model of the generation commands\<close>

text \<open>
  The three source files are the commands \<open>sponge ... model\<close>
  (\<open>generate/model.go\<close>), \<open>sponge micro rpc\<close> (\<open>generate/rpc.go\<close>) and
  \<open>sponge patch gen-db-init\<close> (\<open>patch/gen-db-init.go\<close>). Each command assembles the
  arguments of the schema-to-code collaborator, configures the shared template replacer and
  asks it to save the projected files. The embedding keeps the Go names; a method
  \<open>(g *T) m\<close> is the function \<open>T_m\<close>.

  Go \<open>error\<close> values are values of the datatype \<open>error\<close>, one constructor per place of
  the source where an error is created; an error handed up from code outside the three
  files carries its message.
\<close>

datatype error =
    ErrReplacerIsNil
  | ErrUnsupportedDBDriver string
  | ErrUnsupportedDatabaseDriver string
  | ErrModuleNameNotSet
  | ErrSql2code string
  | ErrSaveFiles string
  | ErrService string

text \<open>\<open>sql2code.Args\<close>, with the fields the commands set.\<close>

record sql2code_Args =
  Package :: string
  JSONTag :: bool
  GormType :: bool
  DBDriver :: string
  DBDsn :: string
  DBTable :: string
  IsEmbed :: bool
  JSONNamedType :: int

text \<open>
  The generated code map \<open>map[string]string\<close>, as an association list read with
  \<open>codes_get\<close>: indexing a Go map at a missing key gives the empty string.
\<close>

type_synonym codes = "(string \<times> string) list"

definition codes_get :: "codes \<Rightarrow> string \<Rightarrow> string" where
  "codes_get cs k = (case map_of cs k of None \<Rightarrow> [] | Some v \<Rightarrow> v)"

text \<open>\<open>replacer.Field\<close>.\<close>

record field =
  Old :: string
  New :: string
  IsCaseSensitive :: bool

text \<open>
  Modelled from the spec: the \<open>replacer.Replacer\<close> object registered as
  \<open>Replacers[TplNameSponge]\<close> is declared outside the three files. Following the
  Generation Scope of the data model and the Output Materializer, it is a record of the
  include and exclude lists, the ordered substitution fields and the output directory, and
  each setter stores its argument.
\<close>

record replacer =
  SourcePath :: string
  SubDirs :: "string list"
  SubFiles :: "string list"
  IgnoreSubDirs :: "string list"
  IgnoreSubFiles :: "string list"
  ReplacementFields :: "field list"
  OutputDir :: string

type_synonym files = "string \<rightharpoonup> string"

record modelGenerator =
  model_codes :: codes
  model_outPath :: string

record rpcGenerator =
  rpc_moduleName :: string
  rpc_serverName :: string
  rpc_projectName :: string
  rpc_repoAddr :: string
  rpc_dbDSN :: string
  rpc_dbDriver :: string
  rpc_isEmbed :: bool
  rpc_codes :: codes
  rpc_outPath :: string

record serviceGenerator =
  svc_moduleName :: string
  svc_serverName :: string
  svc_dbDriver :: string
  svc_isEmbed :: bool
  svc_codes :: codes
  svc_outPath :: string

record dbInitGenerator =
  dbinit_moduleName :: string
  dbinit_dbDriver :: string
  dbinit_outPath :: string

text \<open>What a command prints with \<open>fmt.Printf\<close>, by format string and arguments.\<close>

datatype message =
    ModelUsingHelp
  | ModelSuccess string
  | RPCUsingHelp
  | RPCSuccess string string
  | AlreadyExists string
  | DBInitUsingHelp
  | DBInitSuccess string string

text \<open>
  The observable steps of a run, in order: each call of \<open>sql2code.Generate\<close> with the
  arguments it is given, each generator whose \<open>generateCode\<close> is entered, each call of
  \<open>SaveFiles\<close> with the replacer as configured, each output path a command receives
  from a successful \<open>generateCode\<close>, each line printed.
\<close>

datatype event =
    Sql2codeGenerate sql2code_Args
  | ModelPass modelGenerator
  | RPCPass rpcGenerator
  | ServicePass serviceGenerator
  | DBInitPass dbInitGenerator
  | SaveFiles replacer
  | PassReturned string
  | Printf message

text \<open>
  The state a command runs in: the files on disk (path to content), the persisted
  generation-info records (directory to module and server name), the registered replacer
  (\<open>None\<close> when \<open>Replacers[TplNameSponge]\<close> is nil) and the trace of events so far.
\<close>

record world =
  disk :: files
  gen_info :: "string \<rightharpoonup> string \<times> string"
  Replacers :: "replacer option"
  trace :: "event list"

text \<open>
  The variables a command's closure shares between the iterations of its loop over the
  table names: the argument record \<open>sqlArgs\<close> and the output path \<open>outPath\<close>; with
  them, the world.
\<close>

record cmd_state =
  st_sqlArgs :: sql2code_Args
  st_outPath :: string
  st_world :: world

text \<open>
  Everything the three files call but do not define is a field of \<open>env\<close>: the
  schema-to-code collaborator reads its argument record and returns the code map or an
  error message; \<open>SaveFiles\<close> maps the configured replacer and the disk to an optional
  error message and the disk it leaves; \<open>cst\<close> gives the value of a package-level string
  constant by its Go identifier; the remaining fields are the helper functions by name.
  \<open>rand_src\<close> is the next value of the global source of \<open>math/rand\<close>.
\<close>

record env =
  sql2code_Generate :: "sql2code_Args \<Rightarrow> string + codes"
  replacer_SaveFiles :: "replacer \<Rightarrow> files \<Rightarrow> string option \<times> files"
  timestamp :: string
  service_generateCode :: "serviceGenerator \<Rightarrow> files \<Rightarrow> (string + string) \<times> files"
  convertProjectAndServerName :: "string \<Rightarrow> string \<Rightarrow> string \<times> string"
  generateConfigmap :: "string \<Rightarrow> string \<Rightarrow> files \<Rightarrow> files"
  cst :: "string \<Rightarrow> string"
  deleteFieldsMark :: "replacer \<Rightarrow> string \<Rightarrow> string \<Rightarrow> string \<Rightarrow> field list"
  deleteAllFieldsMark :: "replacer \<Rightarrow> string \<Rightarrow> string \<Rightarrow> string \<Rightarrow> field list"
  replaceFileContentMark :: "replacer \<Rightarrow> string \<Rightarrow> string \<Rightarrow> field list"
  getDBConfigCode :: "string \<Rightarrow> string"
  getInitDBCode :: "string \<Rightarrow> string"
  getEmbedTimeCode :: "bool \<Rightarrow> string"
  adjustmentOfIDType :: "string \<Rightarrow> string \<Rightarrow> string"
  sqliteDSNAdaptation :: "string \<Rightarrow> string \<Rightarrow> string"
  parseImageRepoAddr :: "string \<Rightarrow> string \<times> string"
  getLocalSpongeTemplateVersion :: string
  ToKebabCase :: "string \<Rightarrow> string"
  GetPathDelimiter :: string
  IsWindows :: bool
  rand_src :: nat

section \<open>Library functions\<close>

text \<open>
  \<open>strings.Split s ","\<close>: the pieces between the separators, so an empty string gives one
  empty piece and the result is never empty.
\<close>

fun strings_Split :: "string \<Rightarrow> char \<Rightarrow> string list" where
  "strings_Split [] sep = [[]]"
| "strings_Split (c # cs) sep =
     (if c = sep then [] # strings_Split cs sep
      else (case strings_Split cs sep of
              [] \<Rightarrow> [[c]]
            | x # xs \<Rightarrow> (c # x) # xs))"

text \<open>
  \<open>strings.ToLower\<close> on the bytes of the string: the letters \<open>A\<close> to \<open>Z\<close> go to
  \<open>a\<close> to \<open>z\<close>, every other byte stays. On a string of ASCII bytes this is what Go
  computes; bytes beyond ASCII are left as they are, where Go lower-cases the code points
  they encode.
\<close>

definition upper_lower :: "(char \<times> char) list" where
  "upper_lower = zip ''ABCDEFGHIJKLMNOPQRSTUVWXYZ'' ''abcdefghijklmnopqrstuvwxyz''"

definition lower_char :: "char \<Rightarrow> char" where
  "lower_char c = (case map_of upper_lower c of None \<Rightarrow> c | Some l \<Rightarrow> l)"

definition strings_ToLower :: "string \<Rightarrow> string" where
  "strings_ToLower s = map lower_char s"

text \<open>
  Modelled from the spec: the driver constants of package \<open>generate\<close> are declared
  outside the three files; their values are the driver names the flag help and the spec
  list.
\<close>

definition DBDriverMysql :: string where "DBDriverMysql = ''mysql''"
definition DBDriverPostgresql :: string where "DBDriverPostgresql = ''postgresql''"
definition DBDriverTidb :: string where "DBDriverTidb = ''tidb''"
definition DBDriverSqlite :: string where "DBDriverSqlite = ''sqlite''"
definition DBDriverMongodb :: string where "DBDriverMongodb = ''mongodb''"

text \<open>
  Modelled from the spec: \<open>gofile.IsExists\<close> is declared outside the three files; a path
  exists when the disk has a file at it. A relative path is a key of the disk as it is
  written, that is, relative to the working directory of the process.
\<close>

definition IsExists :: "files \<Rightarrow> string \<Rightarrow> bool" where
  "IsExists d p = (d p \<noteq> None)"

section \<open>The replacer's setters\<close>

definition SetSubDirsAndFiles :: "string list \<Rightarrow> string list \<Rightarrow> replacer \<Rightarrow> replacer" where
  "SetSubDirsAndFiles subDirs subFiles r = r\<lparr>SubDirs := subDirs, SubFiles := subFiles\<rparr>"

definition SetIgnoreSubDirs :: "string list \<Rightarrow> replacer \<Rightarrow> replacer" where
  "SetIgnoreSubDirs dirs r = r\<lparr>IgnoreSubDirs := dirs\<rparr>"

definition SetIgnoreSubFiles :: "string list \<Rightarrow> replacer \<Rightarrow> replacer" where
  "SetIgnoreSubFiles fls r = r\<lparr>IgnoreSubFiles := fls\<rparr>"

definition SetReplacementFields :: "field list \<Rightarrow> replacer \<Rightarrow> replacer" where
  "SetReplacementFields flds r = r\<lparr>ReplacementFields := flds\<rparr>"

text \<open>
  Modelled from the spec (Output Materializer, step 1): a non-empty path is reused as it
  is; for an empty path the directory is the kind prefix, an underscore and the generation
  timestamp.
\<close>

definition SetOutputDir :: "env \<Rightarrow> string \<Rightarrow> string \<Rightarrow> replacer \<Rightarrow> replacer" where
  "SetOutputDir E absPath name r =
     r\<lparr>OutputDir := (if absPath \<noteq> [] then absPath else name @ ''_'' @ timestamp E)\<rparr>"

definition GetOutputDir :: "replacer \<Rightarrow> string" where
  "GetOutputDir r = OutputDir r"

definition GetSourcePath :: "replacer \<Rightarrow> string" where
  "GetSourcePath r = SourcePath r"

definition emit :: "event \<Rightarrow> world \<Rightarrow> world" where
  "emit ev w = w\<lparr>trace := trace w @ [ev]\<rparr>"

text \<open>
  \<open>r.SaveFiles()\<close> on the configured replacer: the replacer object is shared, so the
  configuration stays registered; the disk is whatever the call leaves, also when it fails.
\<close>

definition SaveFiles_step :: "env \<Rightarrow> replacer \<Rightarrow> world \<Rightarrow> (error + string) \<times> world" where
  "SaveFiles_step E r w =
     (let w1 = emit (SaveFiles r) (w\<lparr>Replacers := Some r\<rparr>)
      in case replacer_SaveFiles E r (disk w) of
           (Some msg, d) \<Rightarrow> (Inl (ErrSaveFiles msg), w1\<lparr>disk := d\<rparr>)
         | (None, d) \<Rightarrow> (Inr (GetOutputDir r), w1\<lparr>disk := d\<rparr>))"

section \<open>\<open>generate/model.go\<close>\<close>

definition modelGenerator_addFields :: "env \<Rightarrow> modelGenerator \<Rightarrow> replacer \<Rightarrow> field list" where
  "modelGenerator_addFields E g r =
     deleteFieldsMark E r (cst E ''modelFile'') (cst E ''startMark'') (cst E ''endMark'') @
     [ \<lparr>Old = cst E ''modelFileMark'',
        New = codes_get (model_codes g) (cst E ''parser.CodeTypeModel''),
        IsCaseSensitive = False\<rparr>,
       \<lparr>Old = ''UserExample'',
        New = codes_get (model_codes g) (cst E ''parser.TableName''),
        IsCaseSensitive = True\<rparr> ]"

definition modelGenerator_generateCode ::
  "env \<Rightarrow> modelGenerator \<Rightarrow> world \<Rightarrow> (error + string) \<times> world" where
  "modelGenerator_generateCode E g w0 =
     (let w = emit (ModelPass g) w0
      in case Replacers w of
           None \<Rightarrow> (Inl ErrReplacerIsNil, w)
         | Some r \<Rightarrow>
             (let r1 = SetSubDirsAndFiles [''internal/model''] [] r;
                  r2 = SetIgnoreSubDirs [] r1;
                  r3 = SetIgnoreSubFiles [''init.go'', ''init_test.go'', ''init.go.mgo''] r2;
                  flds = modelGenerator_addFields E g r3;
                  r4 = SetReplacementFields flds r3;
                  r5 = SetOutputDir E (model_outPath g) ''model'' r4
              in SaveFiles_step E r5 w))"

text \<open>
  The argument record a command starts from: \<open>Package\<close>, \<open>JSONTag\<close> and
  \<open>GormType\<close> are fixed by the command, the rest are its flags.
\<close>

definition init_sqlArgs :: "string \<Rightarrow> string \<Rightarrow> bool \<Rightarrow> int \<Rightarrow> sql2code_Args" where
  "init_sqlArgs driver dsn isEmbed jsonNamedType =
     \<lparr>Package = ''model'', JSONTag = True, GormType = True, DBDriver = driver,
      DBDsn = dsn, DBTable = [], IsEmbed = isEmbed, JSONNamedType = jsonNamedType\<rparr>"

text \<open>
  One iteration of the loop of \<open>ModelCommand\<close>: \<open>None\<close> when the loop goes on (also
  after \<open>continue\<close>), the error when the body returns it. A failing \<open>generateCode\<close>
  returns the empty path, which the assignment stores in \<open>outPath\<close>.
\<close>

definition ModelCommand_body :: "env \<Rightarrow> string \<Rightarrow> cmd_state \<Rightarrow> error option \<times> cmd_state" where
  "ModelCommand_body E tableName st =
     (if tableName = [] then (None, st)
      else
        (let sqlArgs = st_sqlArgs st;
             a1 = (if DBDriver sqlArgs = DBDriverMongodb then sqlArgs\<lparr>IsEmbed := False\<rparr>
                   else sqlArgs);
             a2 = a1\<lparr>DBTable := tableName\<rparr>;
             w1 = emit (Sql2codeGenerate a2) (st_world st)
         in case sql2code_Generate E a2 of
              Inl msg \<Rightarrow> (Some (ErrSql2code msg), st\<lparr>st_sqlArgs := a2, st_world := w1\<rparr>)
            | Inr cs \<Rightarrow>
                (case modelGenerator_generateCode E
                        \<lparr>model_codes = cs, model_outPath = st_outPath st\<rparr> w1 of
                   (Inl e, w2) \<Rightarrow>
                     (Some e, \<lparr>st_sqlArgs = a2, st_outPath = [], st_world = w2\<rparr>)
                 | (Inr out, w2) \<Rightarrow>
                     (None, \<lparr>st_sqlArgs = a2, st_outPath = out,
                             st_world = emit (PassReturned out) w2\<rparr>))))"

text \<open>A \<open>for ... range\<close> loop whose body may return an error.\<close>

fun for_range ::
  "(string \<Rightarrow> cmd_state \<Rightarrow> error option \<times> cmd_state) \<Rightarrow> string list \<Rightarrow> cmd_state
     \<Rightarrow> error option \<times> cmd_state" where
  "for_range body [] st = (None, st)"
| "for_range body (x # xs) st =
     (case body x st of
        (Some e, st1) \<Rightarrow> (Some e, st1)
      | (None, st1) \<Rightarrow> for_range body xs st1)"

definition ModelCommand_loop :: "env \<Rightarrow> string list \<Rightarrow> cmd_state \<Rightarrow> error option \<times> cmd_state" where
  "ModelCommand_loop E tableNames st = for_range (ModelCommand_body E) tableNames st"

text \<open>The flags of the model command.\<close>

record model_flags =
  mflag_dbDriver :: string
  mflag_dbDSN :: string
  mflag_dbTables :: string
  mflag_isEmbed :: bool
  mflag_jsonNamedType :: int
  mflag_outPath :: string

definition ModelCommand :: "env \<Rightarrow> model_flags \<Rightarrow> world \<Rightarrow> error option \<times> world" where
  "ModelCommand E fl w =
     (let tableNames = strings_Split (mflag_dbTables fl) CHR '','';
          st = \<lparr>st_sqlArgs = init_sqlArgs (mflag_dbDriver fl) (mflag_dbDSN fl) (mflag_isEmbed fl)
                               (mflag_jsonNamedType fl),
                st_outPath = mflag_outPath fl, st_world = w\<rparr>
      in case ModelCommand_loop E tableNames st of
           (Some e, st1) \<Rightarrow> (Some e, st_world st1)
         | (None, st1) \<Rightarrow>
             (None, emit (Printf (ModelSuccess (st_outPath st1)))
                      (emit (Printf ModelUsingHelp) (st_world st1))))"

section \<open>\<open>generate/rpc.go\<close>\<close>

text \<open>
  \<open>fmt.Sprintf("%d", n)\<close> for a number that is not negative: its decimal digits.
\<close>

definition digit_char :: "nat \<Rightarrow> char" where
  "digit_char d = ''0123456789'' ! d"

function itoa :: "nat \<Rightarrow> string" where
  "itoa n = (if n < 10 then [digit_char n] else itoa (n div 10) @ [digit_char (n mod 10)])"
  by pat_completeness auto
termination
  by (relation "measure (\<lambda>n. n)") auto

declare itoa.simps [simp del]

text \<open>\<open>rand.Intn(n)\<close>: the next value of the source, reduced to the range below \<open>n\<close>.\<close>

definition rand_Intn :: "env \<Rightarrow> nat \<Rightarrow> nat" where
  "rand_Intn E n = rand_src E mod n"

text \<open>
  Modelled from the spec: \<open>saveGenInfo\<close> and \<open>getNamesFromOutDir\<close> are defined outside
  the three files. The Generation-Info Record holds the module name and the server name
  (and the template version, which neither function takes or returns), is written into
  the output tree and is read back by a later invocation on the same directory; a
  directory without a record gives empty names.
\<close>

definition saveGenInfo :: "string \<Rightarrow> string \<Rightarrow> string \<Rightarrow> world \<Rightarrow> world" where
  "saveGenInfo moduleName serverName outputDir w =
     w\<lparr>gen_info := (gen_info w)(outputDir \<mapsto> (moduleName, serverName))\<rparr>"

definition getNamesFromOutDir :: "world \<Rightarrow> string \<Rightarrow> string \<times> string" where
  "getNamesFromOutDir w outPath =
     (case gen_info w outPath of None \<Rightarrow> ([], []) | Some names \<Rightarrow> names)"

text \<open>
  The \<open>switch\<close> of \<open>rpcGenerator.generateCode\<close> on the lower-cased driver: the files to
  ignore, or \<open>None\<close> in the \<open>default\<close> case.
\<close>

definition rpcGenerator_ignoreFiles :: "string \<Rightarrow> string list option" where
  "rpcGenerator_ignoreFiles d =
     (if d = DBDriverMysql \<or> d = DBDriverPostgresql \<or> d = DBDriverTidb \<or> d = DBDriverSqlite
      then Some
        [''userExample_http.go'', ''systemCode_http.go'',
         ''http.go'', ''http_option.go'', ''http_test.go'',
         ''scripts/swag-docs.sh'',
         ''types.pb.validate.go'', ''types.pb.go'',
         ''userExample.pb.go'', ''userExample.pb.validate.go'', ''userExample_grpc.pb.go'',
         ''userExample_router.pb.go'',
         ''init_test.go'', ''init.go.mgo'',
         ''doc.go'', ''cacheNameExample.go'', ''cacheNameExample_test.go'',
         ''cache/userExample.go.mgo'',
         ''dao/userExample.go.mgo'',
         ''userExample_logic.go'', ''userExample_logic_test.go'',
         ''service/userExample_test.go'', ''service/userExample.go.mgo'',
         ''service/userExample_client_test.go.mgo'']
      else if d = DBDriverMongodb
      then Some
        [''userExample_http.go'', ''systemCode_http.go'',
         ''http.go'', ''http_option.go'', ''http_test.go'',
         ''scripts/swag-docs.sh'',
         ''types.pb.validate.go'', ''types.pb.go'',
         ''userExample.pb.go'', ''userExample.pb.validate.go'', ''userExample_grpc.pb.go'',
         ''userExample_router.pb.go'',
         ''init_test.go'', ''init.go'',
         ''doc.go'', ''cacheNameExample.go'', ''cacheNameExample_test.go'',
         ''cache/userExample.go'', ''cache/userExample_test.go'',
         ''dao/userExample_test.go'', ''dao/userExample.go'',
         ''userExample_logic.go'', ''userExample_logic_test.go'',
         ''service/userExample_test.go'', ''service/userExample.go'',
         ''service/userExample_client_test.go'']
      else None)"

text \<open>
  \<open>strings.Join(elems, sep)\<close>.
\<close>

fun strings_Join :: "string list \<Rightarrow> string \<Rightarrow> string" where
  "strings_Join [] sep = []"
| "strings_Join [x] sep = x"
| "strings_Join (x # y # ys) sep = x @ sep @ strings_Join (y # ys) sep"

text \<open>
  The fields of \<open>rpcGenerator.addFields\<close> that come from marked blocks of template files,
  in the order of the \<open>append\<close> calls.
\<close>

definition rpcGenerator_markFields :: "env \<Rightarrow> rpcGenerator \<Rightarrow> replacer \<Rightarrow> field list" where
  "rpcGenerator_markFields E g r =
     deleteFieldsMark E r (cst E ''modelFile'') (cst E ''startMark'') (cst E ''endMark'') @
     deleteFieldsMark E r (cst E ''modelInitDBFile'') (cst E ''startMark'') (cst E ''endMark'') @
     deleteFieldsMark E r (cst E ''daoFile'') (cst E ''startMark'') (cst E ''endMark'') @
     deleteFieldsMark E r (cst E ''daoMgoFile'') (cst E ''startMark'') (cst E ''endMark'') @
     deleteFieldsMark E r (cst E ''daoTestFile'') (cst E ''startMark'') (cst E ''endMark'') @
     deleteFieldsMark E r (cst E ''protoFile'') (cst E ''startMark'') (cst E ''endMark'') @
     deleteFieldsMark E r (cst E ''serviceLogicFile'') (cst E ''startMark'') (cst E ''endMark'') @
     deleteFieldsMark E r (cst E ''serviceClientFile'') (cst E ''startMark'') (cst E ''endMark'') @
     deleteFieldsMark E r (cst E ''serviceClientMgoFile'') (cst E ''startMark'') (cst E ''endMark'') @
     deleteFieldsMark E r (cst E ''serviceTestFile'') (cst E ''startMark'') (cst E ''endMark'') @
     deleteFieldsMark E r (cst E ''dockerFile'') (cst E ''wellStartMark'') (cst E ''wellEndMark'') @
     deleteFieldsMark E r (cst E ''dockerFileBuild'') (cst E ''wellStartMark'') (cst E ''wellEndMark'') @
     deleteFieldsMark E r (cst E ''dockerComposeFile'') (cst E ''wellStartMark'') (cst E ''wellEndMark'') @
     deleteFieldsMark E r (cst E ''k8sDeploymentFile'') (cst E ''wellStartMark'') (cst E ''wellEndMark'') @
     deleteFieldsMark E r (cst E ''k8sServiceFile'') (cst E ''wellStartMark'') (cst E ''wellEndMark'') @
     deleteFieldsMark E r (cst E ''imageBuildFile'') (cst E ''wellStartMark'') (cst E ''wellEndMark'') @
     deleteFieldsMark E r (cst E ''imageBuildLocalFile'') (cst E ''wellStartMark'') (cst E ''wellEndMark'') @
     deleteAllFieldsMark E r (cst E ''makeFile'') (cst E ''wellStartMark'') (cst E ''wellEndMark'') @
     deleteFieldsMark E r (cst E ''gitIgnoreFile'') (cst E ''wellStartMark'') (cst E ''wellEndMark'') @
     deleteAllFieldsMark E r (cst E ''protoShellFile'') (cst E ''wellStartMark'') (cst E ''wellEndMark'') @
     deleteAllFieldsMark E r (cst E ''appConfigFile'') (cst E ''wellStartMark'') (cst E ''wellEndMark'') @
     replaceFileContentMark E r (cst E ''readmeFile'') (''## '' @ rpc_serverName g)"

text \<open>A field with \<open>IsCaseSensitive\<close> left at its zero value.\<close>

definition Field :: "string \<Rightarrow> string \<Rightarrow> field" where
  "Field old new = \<lparr>Old = old, New = new, IsCaseSensitive = False\<rparr>"

text \<open>The literal field list that \<open>rpcGenerator.addFields\<close> appends last.\<close>

definition rpcGenerator_literalFields :: "env \<Rightarrow> rpcGenerator \<Rightarrow> replacer \<Rightarrow> field list" where
  "rpcGenerator_literalFields E g r =
     [ Field (cst E ''appConfigFileMark'') (cst E ''rpcServerConfigCode''),
       Field (cst E ''appConfigFileMark2'') (getDBConfigCode E (rpc_dbDriver g)),
       Field (cst E ''modelFileMark'') (codes_get (rpc_codes g) (cst E ''parser.CodeTypeModel'')),
       Field (cst E ''modelInitDBFileMark'') (getInitDBCode E (rpc_dbDriver g)),
       Field (cst E ''daoFileMark'') (codes_get (rpc_codes g) (cst E ''parser.CodeTypeDAO'')),
       Field (cst E ''embedTimeMark'') (getEmbedTimeCode E (rpc_isEmbed g)),
       Field (cst E ''protoFileMark'') (codes_get (rpc_codes g) (cst E ''parser.CodeTypeProto'')),
       Field (cst E ''protoShellFileGRPCMark'') (cst E ''protoShellGRPCMark''),
       Field (cst E ''protoShellFileMark'') (cst E ''protoShellServiceTmplCode''),
       Field (cst E ''serviceFileMark'')
         (adjustmentOfIDType E (codes_get (rpc_codes g) (cst E ''parser.CodeTypeService''))
            (rpc_dbDriver g)),
       Field (cst E ''dockerFileMark'') (cst E ''dockerFileGrpcCode''),
       Field (cst E ''dockerFileBuildMark'') (cst E ''dockerFileBuildGrpcCode''),
       Field (cst E ''imageBuildFileMark'') (cst E ''imageBuildFileGrpcCode''),
       Field (cst E ''imageBuildLocalFileMark'') (cst E ''imageBuildLocalFileGrpcCode''),
       Field (cst E ''dockerComposeFileMark'') (cst E ''dockerComposeFileGrpcCode''),
       Field (cst E ''k8sDeploymentFileMark'') (cst E ''k8sDeploymentFileGrpcCode''),
       Field (cst E ''k8sServiceFileMark'') (cst E ''k8sServiceFileGrpcCode''),
       Field (cst E ''selfPackageName'' @ ''/'' @ GetSourcePath r) (rpc_moduleName g),
       Field (strings_Join [''api'', ''userExample'', ''v1''] (GetPathDelimiter E))
         (strings_Join [''api'', rpc_serverName g, ''v1''] (GetPathDelimiter E)),
       Field ''github.com/zhufuyi/sponge'' (rpc_moduleName g),
       Field (rpc_moduleName g @ ''/pkg'') ''github.com/zhufuyi/sponge/pkg'',
       Field (cst E ''spongeTemplateVersionMark'') (getLocalSpongeTemplateVersion E),
       Field ''api/userExample/v1'' (''api/'' @ rpc_serverName g @ ''/v1''),
       Field ''api.userExample.v1'' (''api.'' @ rpc_serverName g @ ''.v1''),
       Field ''sponge api docs'' (rpc_serverName g @ '' api docs''),
       Field ''_userExampleNO       = 2'' (''_userExampleNO       = '' @ itoa (rand_Intn E 100)),
       Field ''serverNameExample'' (rpc_serverName g),
       Field ''server-name-example'' (ToKebabCase E (rpc_serverName g)),
       Field ''project-name-example'' (rpc_projectName g),
       Field ''projectNameExample'' (rpc_projectName g),
       Field ''repo-addr-example'' (rpc_repoAddr g),
       Field ''image-repo-host'' (fst (parseImageRepoAddr E (rpc_repoAddr g))),
       Field ''_grpcExample'' [],
       Field ''_mixExample'' [],
       Field ''root:123456@(192.168.3.37:3306)/account'' (rpc_dbDSN g),
       Field ''root:123456@192.168.3.37:5432/account'' (rpc_dbDSN g),
       Field ''test/sql/sqlite/sponge.db'' (sqliteDSNAdaptation E (rpc_dbDriver g) (rpc_dbDSN g)),
       Field ''init.go.mgo'' ''init.go'',
       Field ''userExample_client_test.go.mgo'' ''userExample_client_test.go'',
       Field ''userExample.go.mgo'' ''userExample.go'',
       \<lparr>Old = ''UserExample'',
        New = codes_get (rpc_codes g) (cst E ''parser.TableName''),
        IsCaseSensitive = True\<rparr> ]"

definition rpcGenerator_addFields :: "env \<Rightarrow> rpcGenerator \<Rightarrow> replacer \<Rightarrow> field list" where
  "rpcGenerator_addFields E g r = rpcGenerator_markFields E g r @ rpcGenerator_literalFields E g r"

definition rpcGenerator_generateCode ::
  "env \<Rightarrow> rpcGenerator \<Rightarrow> world \<Rightarrow> (error + string) \<times> world" where
  "rpcGenerator_generateCode E g w0 =
     (let w = emit (RPCPass g) w0
      in case Replacers w of
           None \<Rightarrow> (Inl ErrReplacerIsNil, w)
         | Some r \<Rightarrow>
             (let subDirs = [''sponge/api'', ''cmd/serverNameExample_grpcExample'',
                             ''sponge/configs'', ''sponge/deployments'', ''sponge/scripts'',
                             ''sponge/internal'', ''sponge/third_party''];
                  subFiles = [''sponge/.gitignore'', ''sponge/.golangci.yml'', ''sponge/go.mod'',
                              ''sponge/go.sum'', ''sponge/Jenkinsfile'', ''sponge/Makefile'',
                              ''sponge/README.md''];
                  ignoreDirs = [''internal/handler'', ''internal/rpcclient'', ''internal/routers'',
                                ''internal/types'', ''cmd/sponge'']
              in case rpcGenerator_ignoreFiles (strings_ToLower (rpc_dbDriver g)) of
                   None \<Rightarrow> (Inl (ErrUnsupportedDBDriver (rpc_dbDriver g)), w)
                 | Some ignoreFiles \<Rightarrow>
                     (let r1 = SetSubDirsAndFiles subDirs subFiles r;
                          r2 = SetIgnoreSubDirs ignoreDirs r1;
                          r3 = SetIgnoreSubFiles ignoreFiles r2;
                          flds = rpcGenerator_addFields E g r3;
                          r4 = SetReplacementFields flds r3;
                          r5 = SetOutputDir E (rpc_outPath g) (rpc_serverName g @ ''_'' @ ''rpc'') r4
                      in case SaveFiles_step E r5 w of
                           (Inl e, w1) \<Rightarrow> (Inl e, w1)
                         | (Inr out, w1) \<Rightarrow>
                             (Inr (GetOutputDir r5),
                              saveGenInfo (rpc_moduleName g) (rpc_serverName g)
                                (GetOutputDir r5) w1))))"

text \<open>
  \<open>serviceGenerator.generateCode\<close> is defined outside the three files: the pass is the
  parameter \<open>service_generateCode\<close> of the environment, entered with the generator the
  command builds.
\<close>

definition serviceGenerator_generateCode ::
  "env \<Rightarrow> serviceGenerator \<Rightarrow> world \<Rightarrow> (error + string) \<times> world" where
  "serviceGenerator_generateCode E sg w0 =
     (let w = emit (ServicePass sg) w0
      in case service_generateCode E sg (disk w) of
           (Inl msg, d) \<Rightarrow> (Inl (ErrService msg), w\<lparr>disk := d\<rparr>)
         | (Inr out, d) \<Rightarrow> (Inr out, w\<lparr>disk := d\<rparr>))"

text \<open>One iteration of the loop of \<open>RPCCommand\<close> over the secondary table names.\<close>

definition RPCCommand_body ::
  "env \<Rightarrow> string \<Rightarrow> string \<Rightarrow> string \<Rightarrow> cmd_state \<Rightarrow> error option \<times> cmd_state" where
  "RPCCommand_body E moduleName serverName serviceTableName st =
     (if serviceTableName = [] then (None, st)
      else
        (let a = (st_sqlArgs st)\<lparr>DBTable := serviceTableName\<rparr>;
             w1 = emit (Sql2codeGenerate a) (st_world st)
         in case sql2code_Generate E a of
              Inl msg \<Rightarrow> (Some (ErrSql2code msg), st\<lparr>st_sqlArgs := a, st_world := w1\<rparr>)
            | Inr cs \<Rightarrow>
                (case serviceGenerator_generateCode E
                        \<lparr>svc_moduleName = moduleName, svc_serverName = serverName,
                         svc_dbDriver = DBDriver a, svc_isEmbed = IsEmbed a,
                         svc_codes = cs, svc_outPath = st_outPath st\<rparr> w1 of
                   (Inl e, w2) \<Rightarrow>
                     (Some e, \<lparr>st_sqlArgs = a, st_outPath = [], st_world = w2\<rparr>)
                 | (Inr out, w2) \<Rightarrow>
                     (None, \<lparr>st_sqlArgs = a, st_outPath = out,
                             st_world = emit (PassReturned out) w2\<rparr>))))"

definition RPCCommand_loop ::
  "env \<Rightarrow> string \<Rightarrow> string \<Rightarrow> string list \<Rightarrow> cmd_state \<Rightarrow> error option \<times> cmd_state" where
  "RPCCommand_loop E moduleName serverName tableNames st =
     for_range (RPCCommand_body E moduleName serverName) tableNames st"

text \<open>The flags of the rpc command.\<close>

record rpc_flags =
  flag_moduleName :: string
  flag_serverName :: string
  flag_projectName :: string
  flag_repoAddr :: string
  flag_outPath :: string
  flag_dbTables :: string
  flag_dbDriver :: string
  flag_dbDSN :: string
  flag_isEmbed :: bool
  flag_jsonNamedType :: int

text \<open>
  The primary pass of \<open>RPCCommand\<close>: the part of \<open>RunE\<close> before the loop. The first
  table name is taken as it is.
\<close>

definition RPCCommand_primary ::
  "env \<Rightarrow> rpc_flags \<Rightarrow> string \<Rightarrow> string \<Rightarrow> string \<Rightarrow> world \<Rightarrow> error option \<times> cmd_state" where
  "RPCCommand_primary E fl projectName serverName firstTable w =
     (let a0 = init_sqlArgs (flag_dbDriver fl) (flag_dbDSN fl) (flag_isEmbed fl)
                 (flag_jsonNamedType fl);
          a1 = (if DBDriver a0 = DBDriverMongodb then a0\<lparr>IsEmbed := False\<rparr> else a0);
          a2 = a1\<lparr>DBTable := firstTable\<rparr>;
          w1 = emit (Sql2codeGenerate a2) w
      in case sql2code_Generate E a2 of
           Inl msg \<Rightarrow>
             (Some (ErrSql2code msg),
              \<lparr>st_sqlArgs = a2, st_outPath = flag_outPath fl, st_world = w1\<rparr>)
         | Inr cs \<Rightarrow>
             (case rpcGenerator_generateCode E
                     \<lparr>rpc_moduleName = flag_moduleName fl, rpc_serverName = serverName,
                      rpc_projectName = projectName, rpc_repoAddr = flag_repoAddr fl,
                      rpc_dbDSN = DBDsn a2, rpc_dbDriver = DBDriver a2,
                      rpc_isEmbed = IsEmbed a2, rpc_codes = cs,
                      rpc_outPath = flag_outPath fl\<rparr> w1 of
                (Inl e, w2) \<Rightarrow> (Some e, \<lparr>st_sqlArgs = a2, st_outPath = [], st_world = w2\<rparr>)
              | (Inr out, w2) \<Rightarrow>
                  (None, \<lparr>st_sqlArgs = a2, st_outPath = out,
                          st_world = emit (PassReturned out) w2\<rparr>)))"

definition RPCCommand :: "env \<Rightarrow> rpc_flags \<Rightarrow> world \<Rightarrow> error option \<times> world" where
  "RPCCommand E fl w =
     (let tableNames = strings_Split (flag_dbTables fl) CHR '','';
          firstTable = (case tableNames of [] \<Rightarrow> [] | t # ts \<Rightarrow> t);
          servicesTableNames = (case tableNames of [] \<Rightarrow> [] | t # ts \<Rightarrow> ts);
          names = convertProjectAndServerName E (flag_projectName fl) (flag_serverName fl);
          projectName = fst names;
          serverName = snd names
      in case RPCCommand_primary E fl projectName serverName firstTable w of
           (Some e, st1) \<Rightarrow> (Some e, st_world st1)
         | (None, st1) \<Rightarrow>
             (case RPCCommand_loop E (flag_moduleName fl) serverName servicesTableNames st1 of
                (Some e, st2) \<Rightarrow> (Some e, st_world st2)
              | (None, st2) \<Rightarrow>
                  (let w4 = emit (Printf (RPCSuccess serverName (st_outPath st2)))
                              (emit (Printf RPCUsingHelp) (st_world st2))
                   in (None,
                       w4\<lparr>disk := generateConfigmap E serverName (st_outPath st2) (disk w4)\<rparr>))))"

section \<open>\<open>patch/gen-db-init.go\<close>\<close>

definition dbInitGenerator_ignoreFiles :: "string \<Rightarrow> string list option" where
  "dbInitGenerator_ignoreFiles d =
     (if d = DBDriverMysql \<or> d = DBDriverPostgresql \<or> d = DBDriverTidb \<or> d = DBDriverSqlite
      then Some [''userExample.go'', ''init_test.go'', ''init.go.mgo'']
      else if d = DBDriverMongodb
      then Some [''userExample.go'', ''init_test.go'', ''init.go'']
      else None)"

definition dbInitGenerator_addFields :: "env \<Rightarrow> dbInitGenerator \<Rightarrow> replacer \<Rightarrow> field list" where
  "dbInitGenerator_addFields E g r =
     deleteFieldsMark E r (cst E ''ModelInitDBFile'') (cst E ''StartMark'') (cst E ''EndMark'') @
     [ Field ''github.com/zhufuyi/sponge/internal'' (dbinit_moduleName g @ ''/internal''),
       Field ''github.com/zhufuyi/sponge/configs'' (dbinit_moduleName g @ ''/configs''),
       Field ''init.go.mgo'' ''init.go'',
       Field (cst E ''ModelInitDBFileMark'') (getInitDBCode E (dbinit_dbDriver g)) ]"

definition dbInitGenerator_generateCode ::
  "env \<Rightarrow> dbInitGenerator \<Rightarrow> world \<Rightarrow> (error + string) \<times> world" where
  "dbInitGenerator_generateCode E g w0 =
     (let w = emit (DBInitPass g) w0;
          subTplName = ''init-'' @ dbinit_dbDriver g
      in case Replacers w of
           None \<Rightarrow> (Inl ErrReplacerIsNil, w)
         | Some r \<Rightarrow>
             (case dbInitGenerator_ignoreFiles (strings_ToLower (dbinit_dbDriver g)) of
                None \<Rightarrow> (Inl (ErrUnsupportedDatabaseDriver (dbinit_dbDriver g)), w)
              | Some ignoreFiles \<Rightarrow>
                  (let r1 = SetSubDirsAndFiles [''internal/model''] [] r;
                       r2 = SetIgnoreSubDirs [] r1;
                       r3 = SetIgnoreSubFiles ignoreFiles r2;
                       flds = dbInitGenerator_addFields E g r3;
                       r4 = SetReplacementFields flds r3;
                       r5 = SetOutputDir E (dbinit_outPath g) subTplName r4
                   in SaveFiles_step E r5 w)))"

text \<open>
  \<open>strings.ReplaceAll(targetFile, "/", "\\")\<close> in the Windows branch replaces one
  character by another.
\<close>

definition backslashes :: "string \<Rightarrow> string" where
  "backslashes s = map (\<lambda>c. if c = CHR ''/'' then CHR 0x5C else c) s"

text \<open>
  \<open>RunE\<close> of the command. The module name recovered from the output directory wins
  over the flag; the existence test is \<open>gofile.IsExists(targetFile)\<close>, on the path
  \<open>targetFile\<close> as declared.
\<close>

definition GenerateDBInitCommand ::
  "env \<Rightarrow> string \<Rightarrow> string \<Rightarrow> string \<Rightarrow> world \<Rightarrow> error option \<times> world" where
  "GenerateDBInitCommand E moduleName dbDriver outPath w =
     (let targetFile = ''internal/model/init.go'';
          mdName = fst (getNamesFromOutDir w outPath)
      in case (if mdName \<noteq> [] then Some mdName
               else if moduleName = [] then None
               else Some moduleName) of
           None \<Rightarrow> (Some ErrModuleNameNotSet, w)
         | Some moduleName1 \<Rightarrow>
             (let isEmpty = (outPath = [])
              in if \<not> isEmpty \<and> IsExists (disk w) targetFile
                 then (None, emit (Printf (AlreadyExists targetFile)) w)
                 else
                   (case dbInitGenerator_generateCode E
                           \<lparr>dbinit_moduleName = moduleName1, dbinit_dbDriver = dbDriver,
                            dbinit_outPath = outPath\<rparr> w of
                      (Inl e, w1) \<Rightarrow> (Some e, w1)
                    | (Inr out, w1) \<Rightarrow>
                        (let w2 = (if isEmpty then emit (Printf DBInitUsingHelp) w1 else w1);
                             targetFile1 = (if IsWindows E
                                            then CHR 0x5C # backslashes targetFile
                                            else ''/'' @ targetFile)
                         in (None,
                             emit (Printf (DBInitSuccess dbDriver (out @ targetFile1))) w2)))))"

section \<open>The field substitution engine\<close>

text \<open>
  Modelled from the spec: the engine that applies the fields is part of the replacer,
  outside the three files. By the component design it applies each field as a literal
  find-and-replace across the full content, in list order; a field that is not case
  sensitive matches ignoring the case of letters and inserts its replacement as given.
  A replacement scans from the left and continues after each match, as
  \<open>strings.ReplaceAll\<close> does; an empty \<open>Old\<close> matches before every byte and at the end.
\<close>

fun matches_at :: "(char \<Rightarrow> char) \<Rightarrow> string \<Rightarrow> string \<Rightarrow> bool" where
  "matches_at norm [] s = True"
| "matches_at norm (a # as) [] = False"
| "matches_at norm (a # as) (c # cs) =
     (if norm a = norm c then matches_at norm as cs else False)"

function replace_all :: "(char \<Rightarrow> char) \<Rightarrow> string \<Rightarrow> string \<Rightarrow> string \<Rightarrow> string" where
  "replace_all norm old new [] = (if old = [] then new else [])"
| "replace_all norm old new (c # cs) =
     (if old = [] then new @ c # replace_all norm old new cs
      else if matches_at norm old (c # cs)
      then new @ replace_all norm old new (drop (length old) (c # cs))
      else c # replace_all norm old new cs)"
  by pat_completeness auto
termination
  by (relation "measure (\<lambda>(norm, old, new, s). length s)") auto

definition field_norm :: "field \<Rightarrow> char \<Rightarrow> char" where
  "field_norm f = (if IsCaseSensitive f then (\<lambda>c. c) else lower_char)"

definition apply_field :: "field \<Rightarrow> string \<Rightarrow> string" where
  "apply_field f s = replace_all (field_norm f) (Old f) (New f) s"









section \<open>Reading a trace\<close>

text \<open>The events a run adds to the trace it starts with.\<close>

definition new_events :: "world \<Rightarrow> world \<Rightarrow> event list" where
  "new_events w w' = drop (length (trace w)) (trace w')"

text \<open>The argument records of the calls of \<open>sql2code.Generate\<close>, in order.\<close>

fun generate_calls :: "event list \<Rightarrow> sql2code_Args list" where
  "generate_calls [] = []"
| "generate_calls (Sql2codeGenerate a # evs) = a # generate_calls evs"
| "generate_calls (ev # evs) = generate_calls evs"

text \<open>The replacers \<open>SaveFiles\<close> was called on, in order.\<close>

fun save_calls :: "event list \<Rightarrow> replacer list" where
  "save_calls [] = []"
| "save_calls (SaveFiles r # evs) = r # save_calls evs"
| "save_calls (ev # evs) = save_calls evs"

text \<open>The generators of the secondary passes entered, in order.\<close>

fun service_passes :: "event list \<Rightarrow> serviceGenerator list" where
  "service_passes [] = []"
| "service_passes (ServicePass sg # evs) = sg # service_passes evs"
| "service_passes (ev # evs) = service_passes evs"

text \<open>The generators of the primary rpc passes entered, in order.\<close>

fun rpc_passes :: "event list \<Rightarrow> rpcGenerator list" where
  "rpc_passes [] = []"
| "rpc_passes (RPCPass g # evs) = g # rpc_passes evs"
| "rpc_passes (ev # evs) = rpc_passes evs"

text \<open>The generators of the database-initialization passes entered, in order.\<close>

fun dbinit_passes :: "event list \<Rightarrow> dbInitGenerator list" where
  "dbinit_passes [] = []"
| "dbinit_passes (DBInitPass g # evs) = g # dbinit_passes evs"
| "dbinit_passes (ev # evs) = dbinit_passes evs"

text \<open>
  \<open>threaded prev evs\<close>: every secondary pass of \<open>evs\<close> is entered with, as its output
  path, the path most recently returned by a pass before it (\<open>prev\<close> at the start), and a
  primary rpc pass is entered only when no pass has returned before it.
\<close>

fun threaded :: "string option \<Rightarrow> event list \<Rightarrow> bool" where
  "threaded prev [] = True"
| "threaded prev (ServicePass sg # evs) = (prev = Some (svc_outPath sg) \<and> threaded prev evs)"
| "threaded prev (RPCPass g # evs) = (prev = None \<and> threaded prev evs)"
| "threaded prev (PassReturned out # evs) = threaded (Some out) evs"
| "threaded prev (ev # evs) = threaded prev evs"

text \<open>The path most recently returned by a pass of \<open>evs\<close>, \<open>prev\<close> when there is none.\<close>

fun last_returned :: "string option \<Rightarrow> event list \<Rightarrow> string option" where
  "last_returned prev [] = prev"
| "last_returned prev (PassReturned out # evs) = last_returned (Some out) evs"
| "last_returned prev (ev # evs) = last_returned prev evs"

section \<open>A concrete environment\<close>

text \<open>
  An environment and a world to run the commands in: the collaborator fails on the table
  \<open>missing\<close> and otherwise returns a code map naming the table; \<open>SaveFiles\<close> writes the
  file \<open>internal/model/init.go\<close> under the output directory; the secondary pass writes one file and returns the
  path it is given; no template file has marked blocks.
\<close>

definition E0 :: env where
  "E0 = \<lparr>sql2code_Generate =
            (\<lambda>a. if DBTable a = ''missing'' then Inl ''table not found''
                 else Inr [(''tableName'', DBTable a)]),
          replacer_SaveFiles =
            (\<lambda>r d. (None, d(OutputDir r @ ''/internal/model/init.go'' \<mapsto> ''generated''))),
          timestamp = ''150405'',
          service_generateCode =
            (\<lambda>sg d. (Inr (svc_outPath sg), d(svc_outPath sg @ ''/service'' \<mapsto> ''code''))),
          convertProjectAndServerName = (\<lambda>p s. (p, s)),
          generateConfigmap = (\<lambda>s out d. d),
          cst = (\<lambda>name. ''<'' @ name @ ''>''),
          deleteFieldsMark = (\<lambda>r f s e. []),
          deleteAllFieldsMark = (\<lambda>r f s e. []),
          replaceFileContentMark = (\<lambda>r f c. []),
          getDBConfigCode = (\<lambda>d. ''database:''),
          getInitDBCode = (\<lambda>d. ''InitDB()''),
          getEmbedTimeCode = (\<lambda>b. []),
          adjustmentOfIDType = (\<lambda>c d. c),
          sqliteDSNAdaptation = (\<lambda>d dsn. dsn),
          parseImageRepoAddr = (\<lambda>addr. (addr, [])),
          getLocalSpongeTemplateVersion = ''v1.0.0'',
          ToKebabCase = (\<lambda>s. s),
          GetPathDelimiter = ''/'',
          IsWindows = False,
          rand_src = 7\<rparr>"

definition r0 :: replacer where
  "r0 = \<lparr>SourcePath = ''templates/sponge'', SubDirs = [], SubFiles = [], IgnoreSubDirs = [],
          IgnoreSubFiles = [], ReplacementFields = [], OutputDir = []\<rparr>"

definition w0 :: world where
  "w0 = \<lparr>disk = Map.empty, gen_info = Map.empty, Replacers = Some r0, trace = []\<rparr>"

definition mflags0 :: model_flags where
  "mflags0 = \<lparr>mflag_dbDriver = ''mongodb'', mflag_dbDSN = ''root:123456@(127.0.0.1:27017)/test'',
               mflag_dbTables = ''user,,order'', mflag_isEmbed = True,
               mflag_jsonNamedType = 1, mflag_outPath = []\<rparr>"

definition flags0 :: rpc_flags where
  "flags0 = \<lparr>flag_moduleName = ''shop'', flag_serverName = ''user'', flag_projectName = ''mall'',
              flag_repoAddr = [], flag_outPath = [], flag_dbTables = ''user,,order'',
              flag_dbDriver = ''mongodb'', flag_dbDSN = ''root:123456@(127.0.0.1:27017)/test'',
              flag_isEmbed = True, flag_jsonNamedType = 1\<rparr>"

text \<open>
  A world whose disk holds the terminal file of an earlier generation under the directory
  \<open>out\<close> and nothing at the bare relative path; a world with no replacer registered; an
  rpc generator and a database-initialization generator for a driver outside the
  supported list.
\<close>

definition w_generated :: world where
  "w_generated = w0\<lparr>disk := [''out/internal/model/init.go'' \<mapsto> ''package model'']\<rparr>"

definition w_nil :: world where
  "w_nil = w0\<lparr>Replacers := None\<rparr>"

definition g_oracle :: rpcGenerator where
  "g_oracle = \<lparr>rpc_moduleName = ''shop'', rpc_serverName = ''user'', rpc_projectName = ''mall'',
                rpc_repoAddr = [], rpc_dbDSN = ''scott:tiger@(127.0.0.1:1521)/test'',
                rpc_dbDriver = ''oracle'', rpc_isEmbed = True, rpc_codes = [],
                rpc_outPath = []\<rparr>"

definition g_shop :: rpcGenerator where
  "g_shop = g_oracle\<lparr>rpc_dbDriver := ''mysql'', rpc_dbDSN := ''root:123456@(127.0.0.1:3306)/test''\<rparr>"

definition w_shop :: world where
  "w_shop = snd (rpcGenerator_generateCode E0 g_shop w0)"

definition h_oracle :: dbInitGenerator where
  "h_oracle = \<lparr>dbinit_moduleName = ''shop'', dbinit_dbDriver = ''oracle'', dbinit_outPath = []\<rparr>"

text \<open>
  Flags of the rpc command and of the model command whose table list starts with an empty
  entry, and flags of the rpc command whose driver is written \<open>MongoDB\<close>.
\<close>

definition flags_empty_first :: rpc_flags where
  "flags_empty_first = flags0\<lparr>flag_dbTables := '',order'', flag_dbDriver := ''mysql''\<rparr>"

definition mflags_empty_first :: model_flags where
  "mflags_empty_first = mflags0\<lparr>mflag_dbTables := '',order'', mflag_dbDriver := ''mysql''\<rparr>"

definition flags_MongoDB :: rpc_flags where
  "flags_MongoDB = flags0\<lparr>flag_dbDriver := ''MongoDB''\<rparr>"

definition h_MongoDB :: dbInitGenerator where
  "h_MongoDB = \<lparr>dbinit_moduleName = ''shop'', dbinit_dbDriver = ''MongoDB'', dbinit_outPath = []\<rparr>"

text \<open>
  The state in which the loop of the model command starts, and the names the rpc command
  works with after \<open>convertProjectAndServerName\<close>.
\<close>

definition ModelCommand_start :: "model_flags \<Rightarrow> world \<Rightarrow> cmd_state" where
  "ModelCommand_start fl w =
     \<lparr>st_sqlArgs = init_sqlArgs (mflag_dbDriver fl) (mflag_dbDSN fl) (mflag_isEmbed fl)
                    (mflag_jsonNamedType fl),
      st_outPath = mflag_outPath fl, st_world = w\<rparr>"

definition rpc_projectName' :: "env \<Rightarrow> rpc_flags \<Rightarrow> string" where
  "rpc_projectName' E fl =
     fst (convertProjectAndServerName E (flag_projectName fl) (flag_serverName fl))"

definition rpc_serverName' :: "env \<Rightarrow> rpc_flags \<Rightarrow> string" where
  "rpc_serverName' E fl =
     snd (convertProjectAndServerName E (flag_projectName fl) (flag_serverName fl))"

text \<open>
  Flags whose table list names the table \<open>missing\<close>, on which the collaborator of the
  concrete environment fails, between two tables it knows.
\<close>

definition mflags_missing :: model_flags where
  "mflags_missing = mflags0\<lparr>mflag_dbTables := ''user,missing,order'', mflag_dbDriver := ''mysql''\<rparr>"

definition flags_missing :: rpc_flags where
  "flags_missing = flags0\<lparr>flag_dbTables := ''user,item,missing,order'', flag_dbDriver := ''mysql''\<rparr>"

text \<open>
  The states of the two runs on these flags: after the completed passes (\<open>user\<close> for the
  model command; \<open>user\<close> as primary and \<open>item\<close> as secondary for the rpc command) and
  after the step for \<open>missing\<close>.
\<close>

definition m_st1 :: cmd_state where
  "m_st1 = snd (ModelCommand_loop E0 [''user''] (ModelCommand_start mflags_missing w0))"

definition m_st2 :: cmd_state where
  "m_st2 = snd (ModelCommand_body E0 ''missing'' m_st1)"

definition r_st0 :: cmd_state where
  "r_st0 = snd (RPCCommand_primary E0 flags_missing (rpc_projectName' E0 flags_missing)
                  (rpc_serverName' E0 flags_missing) ''user'' w0)"

definition r_st1 :: cmd_state where
  "r_st1 = snd (RPCCommand_loop E0 (flag_moduleName flags_missing)
                  (rpc_serverName' E0 flags_missing) [''item''] r_st0)"

definition r_st2 :: cmd_state where
  "r_st2 = snd (RPCCommand_body E0 (flag_moduleName flags_missing)
                  (rpc_serverName' E0 flags_missing) ''missing'' r_st1)"

text \<open>Flags of a multi-table rpc request with an empty entry among the secondary tables.\<close>

definition flags_multi :: rpc_flags where
  "flags_multi = flags0\<lparr>flag_dbTables := ''user,item,,order'', flag_dbDriver := ''mysql''\<rparr>"

text \<open>
  An environment whose secondary pass returns a path other than the one it is given, so
  that the path a pass receives tells which pass returned it.
\<close>

definition E_chain :: env where
  "E_chain = E0\<lparr>service_generateCode := (\<lambda>sg d. (Inr (svc_outPath sg @ ''/next''), d))\<rparr>"





section \<open>What the traces of the commands contain\<close>

lemma generate_calls_append [simp]:
  "generate_calls (xs @ ys) = generate_calls xs @ generate_calls ys"
  by (induction xs rule: generate_calls.induct) auto

lemma new_events_append [simp]: "trace w' = trace w @ evs \<Longrightarrow> new_events w w' = evs"
  by (simp add: new_events_def)

lemma for_range_invariant:
  assumes "for_range body xs st = (res, st')" and "I st"
    and "\<And>x s r s'. x \<in> set xs \<Longrightarrow> I s \<Longrightarrow> body x s = (r, s') \<Longrightarrow> I s'"
  shows "I st'"
  using assms
proof (induction xs arbitrary: st)
  case Nil
  then show ?case by simp
next
  case (Cons x xs)
  obtain r s1 where b: "body x st = (r, s1)" by (cases "body x st")
  have I1: "I s1" using Cons.prems(2,3) b by auto
  have step: "\<And>y s r s'. y \<in> set xs \<Longrightarrow> I s \<Longrightarrow> body y s = (r, s') \<Longrightarrow> I s'"
    using Cons.prems(3) by (meson list.set_intros(2))
  show ?case
  proof (cases r)
    case None
    with b Cons.prems(1) have fr: "for_range body xs s1 = (res, st')" by simp
    show ?thesis by (rule Cons.IH[OF fr I1]) (rule step; assumption)
  next
    case (Some e)
    with b Cons.prems(1) have "st' = s1" by simp
    then show ?thesis using I1 by simp
  qed
qed

lemma SaveFiles_step_trace:
  "SaveFiles_step E r w = (res, w') \<Longrightarrow> trace w' = trace w @ [SaveFiles r]"
  by (auto simp: SaveFiles_step_def emit_def Let_def split: prod.splits option.splits)

lemma modelGenerator_generateCode_trace:
  "modelGenerator_generateCode E g w = (res, w') \<Longrightarrow>
     \<exists>rs. trace w' = trace w @ ModelPass g # map SaveFiles rs"
proof (cases "Replacers w")
  case None
  assume "modelGenerator_generateCode E g w = (res, w')"
  with None have "trace w' = trace w @ ModelPass g # map SaveFiles []"
    by (auto simp: modelGenerator_generateCode_def emit_def Let_def)
  then show ?thesis by blast
next
  case (Some r)
  assume "modelGenerator_generateCode E g w = (res, w')"
  with Some obtain r5 where "SaveFiles_step E r5 (emit (ModelPass g) w) = (res, w')"
    by (auto simp: modelGenerator_generateCode_def emit_def Let_def)
  from SaveFiles_step_trace[OF this]
  have "trace w' = trace w @ ModelPass g # map SaveFiles [r5]" by (simp add: emit_def)
  then show ?thesis by blast
qed

lemma generate_calls_SaveFiles [simp]: "generate_calls (map SaveFiles rs) = []"
  by (induction rs) auto

lemma ModelCommand_body_calls:
  assumes "ModelCommand_body E t st = (res, st')"
  shows "\<exists>evs. trace (st_world st') = trace (st_world st) @ evs \<and>
           (\<forall>a \<in> set (generate_calls evs).
              DBDriver a = DBDriver (st_sqlArgs st) \<and>
              (DBDriver a = ''mongodb'' \<longrightarrow> \<not> IsEmbed a)) \<and>
           DBDriver (st_sqlArgs st') = DBDriver (st_sqlArgs st)"
  using assms
  by (auto simp: ModelCommand_body_def Let_def emit_def DBDriverMongodb_def
      split: if_splits sum.splits prod.splits
      dest!: modelGenerator_generateCode_trace)

lemma rpcGenerator_generateCode_trace:
  assumes "rpcGenerator_generateCode E g w = (res, w')"
  shows "\<exists>rs. trace w' = trace w @ RPCPass g # map SaveFiles rs"
proof (cases "Replacers w")
  case None
  with assms have "trace w' = trace w @ RPCPass g # map SaveFiles []"
    by (auto simp: rpcGenerator_generateCode_def emit_def Let_def)
  then show ?thesis by blast
next
  case (Some r)
  show ?thesis
  proof (cases "rpcGenerator_ignoreFiles (strings_ToLower (rpc_dbDriver g))")
    case None
    with Some assms have "trace w' = trace w @ RPCPass g # map SaveFiles []"
      by (auto simp: rpcGenerator_generateCode_def emit_def Let_def)
    then show ?thesis by blast
  next
    case (Some ign)
    with \<open>Replacers w = Some r\<close> assms obtain r5 res1 w1
      where sf: "SaveFiles_step E r5 (emit (RPCPass g) w) = (res1, w1)"
        and tr: "trace w' = trace w1"
      by (auto simp: rpcGenerator_generateCode_def emit_def Let_def saveGenInfo_def
          split: prod.splits sum.splits)
    from SaveFiles_step_trace[OF sf] tr
    have "trace w' = trace w @ RPCPass g # map SaveFiles [r5]" by (simp add: emit_def)
    then show ?thesis by blast
  qed
qed

lemma serviceGenerator_generateCode_trace:
  "serviceGenerator_generateCode E sg w = (res, w') \<Longrightarrow> trace w' = trace w @ [ServicePass sg]"
  by (auto simp: serviceGenerator_generateCode_def emit_def Let_def split: prod.splits sum.splits)

lemma RPCCommand_body_calls:
  assumes "RPCCommand_body E mn sn t st = (res, st')"
  shows "\<exists>evs. trace (st_world st') = trace (st_world st) @ evs \<and>
           (\<forall>a \<in> set (generate_calls evs).
              DBDriver a = DBDriver (st_sqlArgs st) \<and> IsEmbed a = IsEmbed (st_sqlArgs st)) \<and>
           DBDriver (st_sqlArgs st') = DBDriver (st_sqlArgs st) \<and>
           IsEmbed (st_sqlArgs st') = IsEmbed (st_sqlArgs st)"
  using assms
  by (auto simp: RPCCommand_body_def Let_def emit_def
      split: if_splits sum.splits prod.splits
      dest!: serviceGenerator_generateCode_trace)

lemma RPCCommand_primary_calls:
  assumes "RPCCommand_primary E fl pn sn t w = (res, st')"
  shows "\<exists>evs. trace (st_world st') = trace w @ evs \<and>
           (\<forall>a \<in> set (generate_calls evs).
              DBDriver a = flag_dbDriver fl \<and>
              IsEmbed a = (flag_isEmbed fl \<and> flag_dbDriver fl \<noteq> ''mongodb'')) \<and>
           DBDriver (st_sqlArgs st') = flag_dbDriver fl \<and>
           IsEmbed (st_sqlArgs st') = (flag_isEmbed fl \<and> flag_dbDriver fl \<noteq> ''mongodb'')"
  using assms
  by (auto simp: RPCCommand_primary_def Let_def emit_def init_sqlArgs_def DBDriverMongodb_def
      split: if_splits sum.splits prod.splits
      dest!: rpcGenerator_generateCode_trace)

lemma ModelCommand_loop_calls:
  assumes "ModelCommand_loop E ts st = (res, st')"
  shows "\<exists>evs. trace (st_world st') = trace (st_world st) @ evs \<and>
           (\<forall>a \<in> set (generate_calls evs).
              DBDriver a = DBDriver (st_sqlArgs st) \<and>
              (DBDriver a = ''mongodb'' \<longrightarrow> \<not> IsEmbed a))"
proof -
  let ?I = "\<lambda>s. DBDriver (st_sqlArgs s) = DBDriver (st_sqlArgs st) \<and>
     (\<exists>evs. trace (st_world s) = trace (st_world st) @ evs \<and>
           (\<forall>a \<in> set (generate_calls evs).
              DBDriver a = DBDriver (st_sqlArgs st) \<and>
              (DBDriver a = ''mongodb'' \<longrightarrow> \<not> IsEmbed a)))"
  have "?I st'"
  proof (rule for_range_invariant[where I = ?I, OF assms[unfolded ModelCommand_loop_def]])
    show "?I st" by simp
  next
    fix x s r s'
    assume I: "?I s" and b: "ModelCommand_body E x s = (r, s')"
    from ModelCommand_body_calls[OF b] I show "?I s'" by fastforce
  qed
  then show ?thesis by simp
qed

lemma RPCCommand_loop_calls:
  assumes "RPCCommand_loop E mn sn ts st = (res, st')"
  shows "\<exists>evs. trace (st_world st') = trace (st_world st) @ evs \<and>
           (\<forall>a \<in> set (generate_calls evs).
              DBDriver a = DBDriver (st_sqlArgs st) \<and> IsEmbed a = IsEmbed (st_sqlArgs st))"
proof -
  let ?I = "\<lambda>s. DBDriver (st_sqlArgs s) = DBDriver (st_sqlArgs st) \<and>
     IsEmbed (st_sqlArgs s) = IsEmbed (st_sqlArgs st) \<and>
     (\<exists>evs. trace (st_world s) = trace (st_world st) @ evs \<and>
           (\<forall>a \<in> set (generate_calls evs).
              DBDriver a = DBDriver (st_sqlArgs st) \<and> IsEmbed a = IsEmbed (st_sqlArgs st)))"
  have "?I st'"
  proof (rule for_range_invariant[where I = ?I, OF assms[unfolded RPCCommand_loop_def]])
    show "?I st" by simp
  next
    fix x s r s'
    assume I: "?I s" and b: "RPCCommand_body E mn sn x s = (r, s')"
    from RPCCommand_body_calls[OF b] I show "?I s'" by fastforce
  qed
  then show ?thesis by simp
qed

lemma ModelCommand_calls:
  "\<forall>a \<in> set (generate_calls (new_events w (snd (ModelCommand E fl w)))).
     DBDriver a = mflag_dbDriver fl \<and> (DBDriver a = ''mongodb'' \<longrightarrow> \<not> IsEmbed a)"
proof -
  let ?st = "\<lparr>st_sqlArgs = init_sqlArgs (mflag_dbDriver fl) (mflag_dbDSN fl) (mflag_isEmbed fl)
                               (mflag_jsonNamedType fl),
             st_outPath = mflag_outPath fl, st_world = w\<rparr>"
  obtain res st' where l: "ModelCommand_loop E (strings_Split (mflag_dbTables fl) CHR '','') ?st = (res, st')"
    by (cases "ModelCommand_loop E (strings_Split (mflag_dbTables fl) CHR '','') ?st")
  from ModelCommand_loop_calls[OF l] obtain evs where
    tr: "trace (st_world st') = trace w @ evs" and
    c: "\<forall>a \<in> set (generate_calls evs). DBDriver a = mflag_dbDriver fl \<and>
              (DBDriver a = ''mongodb'' \<longrightarrow> \<not> IsEmbed a)"
    by (auto simp: init_sqlArgs_def)
  show ?thesis
  proof (cases res)
    case None
    with l tr have "trace (snd (ModelCommand E fl w)) =
        trace w @ (evs @ [Printf ModelUsingHelp, Printf (ModelSuccess (st_outPath st'))])"
      by (simp add: ModelCommand_def Let_def emit_def)
    from new_events_append[OF this] c show ?thesis by simp
  next
    case (Some e)
    with l tr have "trace (snd (ModelCommand E fl w)) = trace w @ evs"
      by (simp add: ModelCommand_def Let_def)
    from new_events_append[OF this] c show ?thesis by simp
  qed
qed

lemma RPCCommand_calls:
  "\<forall>a \<in> set (generate_calls (new_events w (snd (RPCCommand E fl w)))).
     DBDriver a = flag_dbDriver fl \<and>
     IsEmbed a = (flag_isEmbed fl \<and> flag_dbDriver fl \<noteq> ''mongodb'')"
proof -
  let ?ts = "strings_Split (flag_dbTables fl) CHR '',''"
  let ?first = "case ?ts of [] \<Rightarrow> [] | t # ts \<Rightarrow> t"
  let ?rest = "case ?ts of [] \<Rightarrow> [] | t # ts \<Rightarrow> ts"
  let ?names = "convertProjectAndServerName E (flag_projectName fl) (flag_serverName fl)"
  let ?Q = "\<lambda>evs. \<forall>a \<in> set (generate_calls evs). DBDriver a = flag_dbDriver fl \<and>
     IsEmbed a = (flag_isEmbed fl \<and> flag_dbDriver fl \<noteq> ''mongodb'')"
  obtain r1 st1 where p: "RPCCommand_primary E fl (fst ?names) (snd ?names) ?first w = (r1, st1)"
    by (cases "RPCCommand_primary E fl (fst ?names) (snd ?names) ?first w")
  from RPCCommand_primary_calls[OF p] obtain evs1 where
    t1: "trace (st_world st1) = trace w @ evs1" and q1: "?Q evs1"
    and d1: "DBDriver (st_sqlArgs st1) = flag_dbDriver fl"
    and e1: "IsEmbed (st_sqlArgs st1) = (flag_isEmbed fl \<and> flag_dbDriver fl \<noteq> ''mongodb'')"
    by blast
  show ?thesis
  proof (cases r1)
    case (Some e)
    with p t1 have "trace (snd (RPCCommand E fl w)) = trace w @ evs1"
      by (simp add: RPCCommand_def Let_def)
    from new_events_append[OF this] q1 show ?thesis by simp
  next
    case None
    obtain r2 st2 where l: "RPCCommand_loop E (flag_moduleName fl) (snd ?names) ?rest st1 = (r2, st2)"
      by (cases "RPCCommand_loop E (flag_moduleName fl) (snd ?names) ?rest st1")
    from RPCCommand_loop_calls[OF l] d1 e1 obtain evs2 where
      t2: "trace (st_world st2) = trace (st_world st1) @ evs2" and q2: "?Q evs2"
      by auto
    show ?thesis
    proof (cases r2)
      case (Some e)
      with p l None t1 t2 have "trace (snd (RPCCommand E fl w)) = trace w @ (evs1 @ evs2)"
        by (simp add: RPCCommand_def Let_def)
      from new_events_append[OF this] q1 q2 show ?thesis by auto
    next
      case None
      with p l \<open>r1 = None\<close> t1 t2 have "trace (snd (RPCCommand E fl w)) =
          trace w @ (evs1 @ evs2 @
            [Printf RPCUsingHelp, Printf (RPCSuccess (snd ?names) (st_outPath st2))])"
        by (simp add: RPCCommand_def Let_def emit_def)
      from new_events_append[OF this] q1 q2 show ?thesis by auto
    qed
  qed
qed



subsection \<open>The embed flag under the mongodb driver\<close>

text \<open>The definitions a concrete run of a command unfolds.\<close>

lemmas model_run_defs = ModelCommand_def ModelCommand_loop_def ModelCommand_body_def
  init_sqlArgs_def Let_def emit_def new_events_def DBDriverMongodb_def
  modelGenerator_generateCode_def SaveFiles_step_def
  SetSubDirsAndFiles_def SetIgnoreSubDirs_def SetIgnoreSubFiles_def SetReplacementFields_def
  SetOutputDir_def GetOutputDir_def

lemmas rpc_run_defs = RPCCommand_def RPCCommand_primary_def RPCCommand_loop_def
  RPCCommand_body_def init_sqlArgs_def Let_def emit_def new_events_def DBDriverMongodb_def
  DBDriverMysql_def DBDriverPostgresql_def DBDriverTidb_def DBDriverSqlite_def
  rpcGenerator_generateCode_def serviceGenerator_generateCode_def SaveFiles_step_def
  rpcGenerator_ignoreFiles_def strings_ToLower_def lower_char_def upper_lower_def
  saveGenInfo_def
  SetSubDirsAndFiles_def SetIgnoreSubDirs_def SetIgnoreSubFiles_def SetReplacementFields_def
  SetOutputDir_def GetOutputDir_def

text \<open>
  Claim C2. When the driver of a request is \<open>mongodb\<close>, every call of the schema-to-code
  collaborator gets the embed-base-fields argument \<open>False\<close>, whatever the \<open>--embed\<close>
  flag says, in the model command and in the rpc command.
\<close>

theorem C2_mongodb_never_embeds:
  "(mflag_dbDriver mf = ''mongodb'' \<longrightarrow>
      (\<forall>a \<in> set (generate_calls (new_events w (snd (ModelCommand E mf w)))). \<not> IsEmbed a)) \<and>
   (flag_dbDriver rf = ''mongodb'' \<longrightarrow>
      (\<forall>a \<in> set (generate_calls (new_events w (snd (RPCCommand E rf w)))). \<not> IsEmbed a))"
  using ModelCommand_calls[of w E mf] RPCCommand_calls[of w E rf] by auto

theorem C2_mongodb_never_embeds_witness:
  "mflag_dbDriver mflags0 = ''mongodb'' \<and> mflag_isEmbed mflags0 \<and>
   map DBTable (generate_calls (new_events w0 (snd (ModelCommand E0 mflags0 w0)))) =
     [''user'', ''order''] \<and>
   list_all (\<lambda>a. \<not> IsEmbed a)
     (generate_calls (new_events w0 (snd (ModelCommand E0 mflags0 w0)))) \<and>
   flag_dbDriver flags0 = ''mongodb'' \<and> flag_isEmbed flags0 \<and>
   map DBTable (generate_calls (new_events w0 (snd (RPCCommand E0 flags0 w0)))) =
     [''user'', ''order''] \<and>
   list_all (\<lambda>a. \<not> IsEmbed a)
     (generate_calls (new_events w0 (snd (RPCCommand E0 flags0 w0))))"
proof -
  have m: "mflag_dbDriver mflags0 = ''mongodb''" "mflag_isEmbed mflags0"
    by (simp_all add: mflags0_def)
  have r: "flag_dbDriver flags0 = ''mongodb''" "flag_isEmbed flags0"
    by (simp_all add: flags0_def)
  have tm: "map DBTable (generate_calls (new_events w0 (snd (ModelCommand E0 mflags0 w0)))) =
     [''user'', ''order'']"
    by (simp add: model_run_defs mflags0_def E0_def w0_def)
  have tr: "map DBTable (generate_calls (new_events w0 (snd (RPCCommand E0 flags0 w0)))) =
     [''user'', ''order'']"
    by (simp add: rpc_run_defs flags0_def E0_def w0_def)
  show ?thesis
    using C2_mongodb_never_embeds[of mflags0 w0 E0 flags0] m r tm tr
    by (simp add: list_all_iff)
qed

subsection \<open>Unsupported drivers\<close>

lemma save_calls_append [simp]: "save_calls (xs @ ys) = save_calls xs @ save_calls ys"
  by (induction xs rule: save_calls.induct) auto

lemma save_calls_SaveFiles [simp]: "save_calls (map SaveFiles rs) = rs"
  by (induction rs) auto

lemma rpc_passes_append [simp]: "rpc_passes (xs @ ys) = rpc_passes xs @ rpc_passes ys"
  by (induction xs rule: rpc_passes.induct) auto

lemma rpc_passes_SaveFiles [simp]: "rpc_passes (map SaveFiles rs) = []"
  by (induction rs) auto

lemma dbinit_passes_append [simp]: "dbinit_passes (xs @ ys) = dbinit_passes xs @ dbinit_passes ys"
  by (induction xs rule: dbinit_passes.induct) auto

lemma lower_supported:
  "rpcGenerator_ignoreFiles d = None \<longleftrightarrow>
     d \<notin> {''mysql'', ''postgresql'', ''tidb'', ''sqlite'', ''mongodb''}"
  "dbInitGenerator_ignoreFiles d = None \<longleftrightarrow>
     d \<notin> {''mysql'', ''postgresql'', ''tidb'', ''sqlite'', ''mongodb''}"
  by (auto simp: rpcGenerator_ignoreFiles_def dbInitGenerator_ignoreFiles_def DBDriverMysql_def
      DBDriverPostgresql_def DBDriverTidb_def DBDriverSqlite_def DBDriverMongodb_def)

lemma rpcGenerator_generateCode_unsupported:
  assumes "rpcGenerator_ignoreFiles (strings_ToLower (rpc_dbDriver g)) = None"
  shows "rpcGenerator_generateCode E g w =
     (Inl (case Replacers w of None \<Rightarrow> ErrReplacerIsNil
           | Some r \<Rightarrow> ErrUnsupportedDBDriver (rpc_dbDriver g)), emit (RPCPass g) w)"
  using assms
  by (simp add: rpcGenerator_generateCode_def Let_def emit_def split: option.splits)

lemma dbInitGenerator_generateCode_unsupported:
  assumes "dbInitGenerator_ignoreFiles (strings_ToLower (dbinit_dbDriver g)) = None"
  shows "dbInitGenerator_generateCode E g w =
     (Inl (case Replacers w of None \<Rightarrow> ErrReplacerIsNil
           | Some r \<Rightarrow> ErrUnsupportedDatabaseDriver (dbinit_dbDriver g)), emit (DBInitPass g) w)"
  using assms
  by (simp add: dbInitGenerator_generateCode_def Let_def emit_def split: option.splits)

text \<open>
  Claim C6, as amended. When the lower-cased driver of an rpc pass or of a
  database-initialization pass is none of \<open>mysql\<close>, \<open>postgresql\<close>, \<open>tidb\<close>, \<open>sqlite\<close> and
  \<open>mongodb\<close>, the pass returns an error without calling \<open>SaveFiles\<close> and leaves the disk
  as it was. The error is the unsupported-driver error when the template replacer is
  registered, and \<open>replacer is nil\<close> when it is not: the nil test comes first.
\<close>

theorem C6_unsupported_driver_writes_nothing:
  assumes "strings_ToLower d \<notin> {''mysql'', ''postgresql'', ''tidb'', ''sqlite'', ''mongodb''}"
  shows "(rpc_dbDriver g = d \<longrightarrow>
            fst (rpcGenerator_generateCode E g w) =
              Inl (case Replacers w of None \<Rightarrow> ErrReplacerIsNil
                   | Some r \<Rightarrow> ErrUnsupportedDBDriver d) \<and>
            save_calls (new_events w (snd (rpcGenerator_generateCode E g w))) = [] \<and>
            disk (snd (rpcGenerator_generateCode E g w)) = disk w) \<and>
         (dbinit_dbDriver h = d \<longrightarrow>
            fst (dbInitGenerator_generateCode E h w) =
              Inl (case Replacers w of None \<Rightarrow> ErrReplacerIsNil
                   | Some r \<Rightarrow> ErrUnsupportedDatabaseDriver d) \<and>
            save_calls (new_events w (snd (dbInitGenerator_generateCode E h w))) = [] \<and>
            disk (snd (dbInitGenerator_generateCode E h w)) = disk w)"
proof (intro conjI impI)
  assume d: "rpc_dbDriver g = d"
  with assms have n: "rpcGenerator_ignoreFiles (strings_ToLower (rpc_dbDriver g)) = None"
    by (simp add: lower_supported)
  note u = rpcGenerator_generateCode_unsupported[OF n, of E w]
  show "fst (rpcGenerator_generateCode E g w) =
          Inl (case Replacers w of None \<Rightarrow> ErrReplacerIsNil
               | Some r \<Rightarrow> ErrUnsupportedDBDriver d)"
    using u d by (auto split: option.splits)
  show "save_calls (new_events w (snd (rpcGenerator_generateCode E g w))) = []"
    using u by (simp add: new_events_def emit_def)
  show "disk (snd (rpcGenerator_generateCode E g w)) = disk w"
    using u by (simp add: emit_def)
next
  assume d: "dbinit_dbDriver h = d"
  with assms have n: "dbInitGenerator_ignoreFiles (strings_ToLower (dbinit_dbDriver h)) = None"
    by (simp add: lower_supported)
  note u = dbInitGenerator_generateCode_unsupported[OF n, of E w]
  show "fst (dbInitGenerator_generateCode E h w) =
          Inl (case Replacers w of None \<Rightarrow> ErrReplacerIsNil
               | Some r \<Rightarrow> ErrUnsupportedDatabaseDriver d)"
    using u d by (auto split: option.splits)
  show "save_calls (new_events w (snd (dbInitGenerator_generateCode E h w))) = []"
    using u by (simp add: new_events_def emit_def)
  show "disk (snd (dbInitGenerator_generateCode E h w)) = disk w"
    using u by (simp add: emit_def)
qed

lemma lower_oracle: "strings_ToLower ''oracle'' = ''oracle''"
  by (simp add: strings_ToLower_def lower_char_def upper_lower_def)

theorem C6_unsupported_driver_writes_nothing_witness:
  "strings_ToLower ''oracle'' \<notin> {''mysql'', ''postgresql'', ''tidb'', ''sqlite'', ''mongodb''} \<and>
   rpc_dbDriver g_oracle = ''oracle'' \<and>
   fst (rpcGenerator_generateCode E0 g_oracle w0) = Inl (ErrUnsupportedDBDriver ''oracle'') \<and>
   save_calls (new_events w0 (snd (rpcGenerator_generateCode E0 g_oracle w0))) = [] \<and>
   disk (snd (rpcGenerator_generateCode E0 g_oracle w0)) = disk w0 \<and>
   dbinit_dbDriver h_oracle = ''oracle'' \<and>
   fst (dbInitGenerator_generateCode E0 h_oracle w0) =
     Inl (ErrUnsupportedDatabaseDriver ''oracle'') \<and>
   save_calls (new_events w0 (snd (dbInitGenerator_generateCode E0 h_oracle w0))) = [] \<and>
   disk (snd (dbInitGenerator_generateCode E0 h_oracle w0)) = disk w0"
proof -
  have n: "strings_ToLower ''oracle'' \<notin>
      {''mysql'', ''postgresql'', ''tidb'', ''sqlite'', ''mongodb''}"
    by (simp add: lower_oracle)
  have g: "rpc_dbDriver g_oracle = ''oracle''" by (simp add: g_oracle_def)
  have h: "dbinit_dbDriver h_oracle = ''oracle''" by (simp add: h_oracle_def)
  have r: "Replacers w0 = Some r0" by (simp add: w0_def)
  show ?thesis
    using C6_unsupported_driver_writes_nothing[OF n, of g_oracle E0 w0 h_oracle] n g h r
    by simp
qed

text \<open>
  With no replacer registered, the rpc pass for the driver \<open>oracle\<close> does not return the
  unsupported-driver error.
\<close>

theorem C6_replacer_nil_counterexample:
  "strings_ToLower (rpc_dbDriver g_oracle) \<notin>
     {''mysql'', ''postgresql'', ''tidb'', ''sqlite'', ''mongodb''} \<and>
   fst (rpcGenerator_generateCode E0 g_oracle w_nil) = Inl ErrReplacerIsNil \<and>
   fst (rpcGenerator_generateCode E0 g_oracle w_nil) \<noteq>
     Inl (ErrUnsupportedDBDriver (rpc_dbDriver g_oracle))"
  by (simp add: rpcGenerator_generateCode_def Let_def emit_def w_nil_def w0_def g_oracle_def
      lower_oracle)

subsection \<open>The driver switch and the embed rule\<close>

lemma rpcGenerator_generateCode_saves:
  assumes "rpcGenerator_generateCode E g w = (res, w')"
  shows "\<exists>rs. trace w' = trace w @ RPCPass g # map SaveFiles rs \<and>
           (\<forall>r \<in> set rs. Some (IgnoreSubFiles r) =
              rpcGenerator_ignoreFiles (strings_ToLower (rpc_dbDriver g)))"
proof (cases "Replacers w")
  case None
  with assms have "trace w' = trace w @ RPCPass g # map SaveFiles []"
    by (auto simp: rpcGenerator_generateCode_def emit_def Let_def)
  then show ?thesis by fastforce
next
  case (Some r)
  show ?thesis
  proof (cases "rpcGenerator_ignoreFiles (strings_ToLower (rpc_dbDriver g))")
    case None
    with Some assms have "trace w' = trace w @ RPCPass g # map SaveFiles []"
      by (auto simp: rpcGenerator_generateCode_def emit_def Let_def)
    then show ?thesis by fastforce
  next
    case ign: (Some ign)
    with Some assms obtain r5 res1 w1
      where sf: "SaveFiles_step E r5 (emit (RPCPass g) w) = (res1, w1)"
        and tr: "trace w' = trace w1" and ig: "IgnoreSubFiles r5 = ign"
      by (auto simp: rpcGenerator_generateCode_def emit_def Let_def saveGenInfo_def
          SetOutputDir_def SetReplacementFields_def SetIgnoreSubFiles_def
          split: prod.splits sum.splits)
    from SaveFiles_step_trace[OF sf] tr
    have "trace w' = trace w @ RPCPass g # map SaveFiles [r5]" by (simp add: emit_def)
    with ig ign show ?thesis by fastforce
  qed
qed

lemma dbInitGenerator_generateCode_saves:
  assumes "dbInitGenerator_generateCode E g w = (res, w')"
  shows "\<exists>rs. trace w' = trace w @ DBInitPass g # map SaveFiles rs \<and>
           (\<forall>r \<in> set rs. Some (IgnoreSubFiles r) =
              dbInitGenerator_ignoreFiles (strings_ToLower (dbinit_dbDriver g)))"
proof (cases "Replacers w")
  case None
  with assms have "trace w' = trace w @ DBInitPass g # map SaveFiles []"
    by (auto simp: dbInitGenerator_generateCode_def emit_def Let_def)
  then show ?thesis by fastforce
next
  case (Some r)
  show ?thesis
  proof (cases "dbInitGenerator_ignoreFiles (strings_ToLower (dbinit_dbDriver g))")
    case None
    with Some assms have "trace w' = trace w @ DBInitPass g # map SaveFiles []"
      by (auto simp: dbInitGenerator_generateCode_def emit_def Let_def)
    then show ?thesis by fastforce
  next
    case ign: (Some ign)
    with Some assms obtain r5
      where sf: "SaveFiles_step E r5 (emit (DBInitPass g) w) = (res, w')"
        and ig: "IgnoreSubFiles r5 = ign"
      by (auto simp: dbInitGenerator_generateCode_def emit_def Let_def
          SetOutputDir_def SetReplacementFields_def SetIgnoreSubFiles_def)
    from SaveFiles_step_trace[OF sf]
    have "trace w' = trace w @ DBInitPass g # map SaveFiles [r5]" by (simp add: emit_def)
    with ig ign show ?thesis by fastforce
  qed
qed

lemma RPCCommand_body_passes:
  assumes "RPCCommand_body E mn sn t st = (res, st')"
  shows "\<exists>evs. trace (st_world st') = trace (st_world st) @ evs \<and>
           rpc_passes evs = [] \<and> save_calls evs = []"
  using assms
  by (auto simp: RPCCommand_body_def Let_def emit_def
      split: if_splits sum.splits prod.splits
      dest!: serviceGenerator_generateCode_trace)

lemma RPCCommand_loop_passes:
  assumes "RPCCommand_loop E mn sn ts st = (res, st')"
  shows "\<exists>evs. trace (st_world st') = trace (st_world st) @ evs \<and>
           rpc_passes evs = [] \<and> save_calls evs = []"
proof -
  let ?I = "\<lambda>s. \<exists>evs. trace (st_world s) = trace (st_world st) @ evs \<and>
           rpc_passes evs = [] \<and> save_calls evs = []"
  show "?I st'"
  proof (rule for_range_invariant[where I = ?I, OF assms[unfolded RPCCommand_loop_def]])
    show "?I st" by simp
  next
    fix x s r s'
    assume I: "?I s" and b: "RPCCommand_body E mn sn x s = (r, s')"
    from RPCCommand_body_passes[OF b] I show "?I s'" by fastforce
  qed
qed

lemma RPCCommand_primary_passes:
  assumes "RPCCommand_primary E fl pn sn t w = (res, st')"
  shows "\<exists>evs. trace (st_world st') = trace w @ evs \<and>
           (\<forall>g \<in> set (rpc_passes evs).
              rpc_dbDriver g = flag_dbDriver fl \<and>
              rpc_isEmbed g = (flag_isEmbed fl \<and> flag_dbDriver fl \<noteq> ''mongodb'')) \<and>
           (\<forall>r \<in> set (save_calls evs). Some (IgnoreSubFiles r) =
              rpcGenerator_ignoreFiles (strings_ToLower (flag_dbDriver fl)))"
  using assms
  by (auto simp: RPCCommand_primary_def Let_def emit_def init_sqlArgs_def DBDriverMongodb_def
      split: if_splits sum.splits prod.splits
      dest!: rpcGenerator_generateCode_saves)

lemma RPCCommand_passes:
  "(\<forall>g \<in> set (rpc_passes (new_events w (snd (RPCCommand E fl w)))).
      rpc_dbDriver g = flag_dbDriver fl \<and>
      rpc_isEmbed g = (flag_isEmbed fl \<and> flag_dbDriver fl \<noteq> ''mongodb'')) \<and>
   (\<forall>r \<in> set (save_calls (new_events w (snd (RPCCommand E fl w)))).
      Some (IgnoreSubFiles r) = rpcGenerator_ignoreFiles (strings_ToLower (flag_dbDriver fl)))"
proof -
  let ?ts = "strings_Split (flag_dbTables fl) CHR '',''"
  let ?first = "case ?ts of [] \<Rightarrow> [] | t # ts \<Rightarrow> t"
  let ?rest = "case ?ts of [] \<Rightarrow> [] | t # ts \<Rightarrow> ts"
  let ?names = "convertProjectAndServerName E (flag_projectName fl) (flag_serverName fl)"
  let ?Q = "\<lambda>evs. (\<forall>g \<in> set (rpc_passes evs).
              rpc_dbDriver g = flag_dbDriver fl \<and>
              rpc_isEmbed g = (flag_isEmbed fl \<and> flag_dbDriver fl \<noteq> ''mongodb'')) \<and>
           (\<forall>r \<in> set (save_calls evs). Some (IgnoreSubFiles r) =
              rpcGenerator_ignoreFiles (strings_ToLower (flag_dbDriver fl)))"
  obtain r1 st1 where p: "RPCCommand_primary E fl (fst ?names) (snd ?names) ?first w = (r1, st1)"
    by (cases "RPCCommand_primary E fl (fst ?names) (snd ?names) ?first w")
  from RPCCommand_primary_passes[OF p] obtain evs1 where
    t1: "trace (st_world st1) = trace w @ evs1" and q1: "?Q evs1"
    by blast
  show ?thesis
  proof (cases r1)
    case (Some e)
    with p t1 have "trace (snd (RPCCommand E fl w)) = trace w @ evs1"
      by (simp add: RPCCommand_def Let_def)
    from new_events_append[OF this] q1 show ?thesis by simp
  next
    case None
    obtain r2 st2 where l: "RPCCommand_loop E (flag_moduleName fl) (snd ?names) ?rest st1 = (r2, st2)"
      by (cases "RPCCommand_loop E (flag_moduleName fl) (snd ?names) ?rest st1")
    from RPCCommand_loop_passes[OF l] obtain evs2 where
      t2: "trace (st_world st2) = trace (st_world st1) @ evs2"
      and q2: "rpc_passes evs2 = []" "save_calls evs2 = []"
      by auto
    show ?thesis
    proof (cases r2)
      case (Some e)
      with p l None t1 t2 have "trace (snd (RPCCommand E fl w)) = trace w @ (evs1 @ evs2)"
        by (simp add: RPCCommand_def Let_def)
      from new_events_append[OF this] q1 q2 show ?thesis by simp
    next
      case None
      with p l \<open>r1 = None\<close> t1 t2 have "trace (snd (RPCCommand E fl w)) =
          trace w @ (evs1 @ evs2 @
            [Printf RPCUsingHelp, Printf (RPCSuccess (snd ?names) (st_outPath st2))])"
        by (simp add: RPCCommand_def Let_def emit_def)
      from new_events_append[OF this] q1 q2 show ?thesis by simp
    qed
  qed
qed

text \<open>
  Claim C10. The driver is compared in two ways: the \<open>switch\<close> that selects the files to
  ignore lower-cases it, the rule that forces the embed flag to \<open>False\<close> compares it with
  \<open>mongodb\<close> as it is. So for a driver that is \<open>mongodb\<close> only after lower-casing, such as
  \<open>MongoDB\<close>, the rpc command passes the caller's embed flag to the collaborator and to the
  primary pass, while every \<open>SaveFiles\<close> of the rpc pass and of the
  database-initialization pass runs with the ignore list of the mongodb variant.
\<close>

theorem C10_driver_case_inconsistency:
  assumes "strings_ToLower d = ''mongodb''" and "d \<noteq> ''mongodb''"
  shows "(flag_dbDriver fl = d \<longrightarrow>
           (\<forall>a \<in> set (generate_calls (new_events w (snd (RPCCommand E fl w)))).
              IsEmbed a = flag_isEmbed fl) \<and>
           (\<forall>g \<in> set (rpc_passes (new_events w (snd (RPCCommand E fl w)))).
              rpc_isEmbed g = flag_isEmbed fl) \<and>
           (\<forall>r \<in> set (save_calls (new_events w (snd (RPCCommand E fl w)))).
              Some (IgnoreSubFiles r) = rpcGenerator_ignoreFiles ''mongodb'')) \<and>
         (dbinit_dbDriver h = d \<longrightarrow>
           (\<forall>r \<in> set (save_calls (new_events w (snd (dbInitGenerator_generateCode E h w)))).
              Some (IgnoreSubFiles r) = dbInitGenerator_ignoreFiles ''mongodb''))"
proof (intro conjI impI)
  assume d: "flag_dbDriver fl = d"
  show "\<forall>a \<in> set (generate_calls (new_events w (snd (RPCCommand E fl w)))).
              IsEmbed a = flag_isEmbed fl"
    using RPCCommand_calls[of w E fl] d assms(2) by simp
  show "\<forall>g \<in> set (rpc_passes (new_events w (snd (RPCCommand E fl w)))).
              rpc_isEmbed g = flag_isEmbed fl"
    using RPCCommand_passes[of w E fl] d assms(2) by simp
  show "\<forall>r \<in> set (save_calls (new_events w (snd (RPCCommand E fl w)))).
              Some (IgnoreSubFiles r) = rpcGenerator_ignoreFiles ''mongodb''"
    using RPCCommand_passes[of w E fl] d assms(1) by simp
next
  assume d: "dbinit_dbDriver h = d"
  obtain res w' where g: "dbInitGenerator_generateCode E h w = (res, w')"
    by (cases "dbInitGenerator_generateCode E h w")
  from dbInitGenerator_generateCode_saves[OF g] obtain rs where
    "trace w' = trace w @ DBInitPass h # map SaveFiles rs"
    "\<forall>r \<in> set rs. Some (IgnoreSubFiles r) =
        dbInitGenerator_ignoreFiles (strings_ToLower (dbinit_dbDriver h))"
    by blast
  with g d assms(1)
  show "\<forall>r \<in> set (save_calls (new_events w (snd (dbInitGenerator_generateCode E h w)))).
              Some (IgnoreSubFiles r) = dbInitGenerator_ignoreFiles ''mongodb''"
    by (simp add: new_events_def)
qed

lemma lower_MongoDB: "strings_ToLower ''MongoDB'' = ''mongodb''"
  by (simp add: strings_ToLower_def lower_char_def upper_lower_def)

theorem C10_driver_case_inconsistency_witness:
  "strings_ToLower ''MongoDB'' = ''mongodb'' \<and> ''MongoDB'' \<noteq> ''mongodb'' \<and>
   flag_dbDriver flags_MongoDB = ''MongoDB'' \<and> flag_isEmbed flags_MongoDB \<and>
   map IsEmbed (generate_calls (new_events w0 (snd (RPCCommand E0 flags_MongoDB w0)))) =
     [True, True] \<and>
   map rpc_isEmbed (rpc_passes (new_events w0 (snd (RPCCommand E0 flags_MongoDB w0)))) =
     [True] \<and>
   length (save_calls (new_events w0 (snd (RPCCommand E0 flags_MongoDB w0)))) = 1 \<and>
   list_all (\<lambda>r. Some (IgnoreSubFiles r) = rpcGenerator_ignoreFiles ''mongodb'')
     (save_calls (new_events w0 (snd (RPCCommand E0 flags_MongoDB w0)))) \<and>
   dbinit_dbDriver h_MongoDB = ''MongoDB'' \<and>
   length (save_calls (new_events w0 (snd (dbInitGenerator_generateCode E0 h_MongoDB w0)))) = 1 \<and>
   list_all (\<lambda>r. Some (IgnoreSubFiles r) = dbInitGenerator_ignoreFiles ''mongodb'')
     (save_calls (new_events w0 (snd (dbInitGenerator_generateCode E0 h_MongoDB w0))))"
proof -
  have a: "strings_ToLower ''MongoDB'' = ''mongodb''" "''MongoDB'' \<noteq> ''mongodb''"
    by (simp_all add: lower_MongoDB)
  have f: "flag_dbDriver flags_MongoDB = ''MongoDB''" "flag_isEmbed flags_MongoDB"
    "dbinit_dbDriver h_MongoDB = ''MongoDB''"
    by (simp_all add: flags_MongoDB_def flags0_def h_MongoDB_def)
  have e: "map IsEmbed (generate_calls (new_events w0 (snd (RPCCommand E0 flags_MongoDB w0)))) =
     [True, True]"
    by (simp add: rpc_run_defs flags_MongoDB_def flags0_def E0_def w0_def)
  have g: "map rpc_isEmbed (rpc_passes (new_events w0 (snd (RPCCommand E0 flags_MongoDB w0)))) =
     [True]"
    by (simp add: rpc_run_defs flags_MongoDB_def flags0_def E0_def w0_def)
  have l: "length (save_calls (new_events w0 (snd (RPCCommand E0 flags_MongoDB w0)))) = 1"
    by (simp add: rpc_run_defs flags_MongoDB_def flags0_def E0_def w0_def)
  have m: "length (save_calls (new_events w0
            (snd (dbInitGenerator_generateCode E0 h_MongoDB w0)))) = 1"
    by (simp add: dbInitGenerator_generateCode_def dbInitGenerator_ignoreFiles_def
        rpc_run_defs h_MongoDB_def E0_def w0_def)
  show ?thesis
    using C10_driver_case_inconsistency[OF a, of flags_MongoDB w0 E0 h_MongoDB] a f e g l m
    by (simp add: list_all_iff)
qed

subsection \<open>The database-initialization command\<close>

lemmas dbinit_run_defs = GenerateDBInitCommand_def dbInitGenerator_generateCode_def
  dbInitGenerator_ignoreFiles_def getNamesFromOutDir_def IsExists_def backslashes_def
  DBDriverMysql_def DBDriverPostgresql_def DBDriverTidb_def DBDriverSqlite_def
  DBDriverMongodb_def strings_ToLower_def lower_char_def upper_lower_def
  SaveFiles_step_def Let_def emit_def new_events_def
  SetSubDirsAndFiles_def SetIgnoreSubDirs_def SetIgnoreSubFiles_def SetReplacementFields_def
  SetOutputDir_def GetOutputDir_def

text \<open>
  When the path the command tests exists and a module name is available, the command is
  a no-op: it prints the path and returns no error, the disk is untouched and no pass is
  entered.
\<close>

lemma GenerateDBInitCommand_no_op:
  assumes "outPath \<noteq> []" and "IsExists (disk w) ''internal/model/init.go''"
    and "fst (getNamesFromOutDir w outPath) \<noteq> [] \<or> moduleName \<noteq> []"
  shows "GenerateDBInitCommand E moduleName dbDriver outPath w =
           (None, emit (Printf (AlreadyExists ''internal/model/init.go'')) w)"
  using assms by (auto simp: GenerateDBInitCommand_def Let_def)

text \<open>
  Claim C1 at a failing input. The output directory \<open>out\<close> holds
  \<open>internal/model/init.go\<close> from an earlier generation, the working directory does not.
  The command tests the bare path \<open>internal/model/init.go\<close>, finds nothing, runs the pass
  and \<open>SaveFiles\<close> overwrites the file under \<open>out\<close>; nothing is reported as existing.
\<close>

theorem C1_existence_test_ignores_outPath:
  "IsExists (disk w_generated) (''out'' @ ''/'' @ ''internal/model/init.go'') \<and>
   \<not> IsExists (disk w_generated) ''internal/model/init.go'' \<and>
   fst (GenerateDBInitCommand E0 ''shop'' ''mysql'' ''out'' w_generated) = None \<and>
   map OutputDir (save_calls (new_events w_generated
      (snd (GenerateDBInitCommand E0 ''shop'' ''mysql'' ''out'' w_generated)))) = [''out''] \<and>
   disk w_generated ''out/internal/model/init.go'' = Some ''package model'' \<and>
   disk (snd (GenerateDBInitCommand E0 ''shop'' ''mysql'' ''out'' w_generated))
     ''out/internal/model/init.go'' = Some ''generated'' \<and>
   Printf (AlreadyExists ''internal/model/init.go'') \<notin>
     set (trace (snd (GenerateDBInitCommand E0 ''shop'' ''mysql'' ''out'' w_generated)))"
  by (simp add: dbinit_run_defs w_generated_def w0_def E0_def)

subsection \<open>Empty entries of the table list\<close>

text \<open>
  Claim C3 at a failing input. For the table list \<open>,order\<close> the rpc command calls the
  collaborator with the empty primary table name and runs the primary pass on the result;
  only the loop over the secondary names tests for the empty string. The model command,
  whose loop covers every entry, skips the empty entry of the same list.
\<close>

theorem C3_rpc_primary_entry_not_skipped:
  "strings_Split (flag_dbTables flags_empty_first) CHR '','' = [[], ''order''] \<and>
   map DBTable (generate_calls (new_events w0 (snd (RPCCommand E0 flags_empty_first w0)))) =
     [[], ''order''] \<and>
   map rpc_codes (rpc_passes (new_events w0 (snd (RPCCommand E0 flags_empty_first w0)))) =
     [[(''tableName'', [])]] \<and>
   fst (RPCCommand E0 flags_empty_first w0) = None \<and>
   map DBTable (generate_calls (new_events w0 (snd (ModelCommand E0 mflags_empty_first w0)))) =
     [''order'']"
proof -
  have 1: "strings_Split (flag_dbTables flags_empty_first) CHR '','' = [[], ''order'']"
    by (simp add: flags_empty_first_def flags0_def)
  have 2: "map DBTable (generate_calls (new_events w0
             (snd (RPCCommand E0 flags_empty_first w0)))) = [[], ''order'']"
    by (simp add: rpc_run_defs flags_empty_first_def flags0_def E0_def w0_def)
  have 3: "map rpc_codes (rpc_passes (new_events w0
             (snd (RPCCommand E0 flags_empty_first w0)))) = [[(''tableName'', [])]]"
    by (simp add: rpc_run_defs flags_empty_first_def flags0_def E0_def w0_def)
  have 4: "fst (RPCCommand E0 flags_empty_first w0) = None"
    by (simp add: rpc_run_defs flags_empty_first_def flags0_def E0_def w0_def)
  have 5: "map DBTable (generate_calls (new_events w0
             (snd (ModelCommand E0 mflags_empty_first w0)))) = [''order'']"
    by (simp add: model_run_defs mflags_empty_first_def mflags0_def E0_def w0_def)
  from 1 2 3 4 5 show ?thesis by simp
qed

subsection \<open>The generation-info record\<close>

lemma rpcGenerator_generateCode_gen_info:
  assumes "rpcGenerator_generateCode E g w = (Inr out, w1)"
  shows "getNamesFromOutDir w1 out = (rpc_moduleName g, rpc_serverName g)"
  using assms
  by (auto simp: rpcGenerator_generateCode_def Let_def getNamesFromOutDir_def saveGenInfo_def
      split: option.splits prod.splits sum.splits)

lemma dbInitGenerator_generateCode_error:
  "fst (dbInitGenerator_generateCode E h w) \<noteq> Inl ErrModuleNameNotSet"
  by (auto simp: dbInitGenerator_generateCode_def SaveFiles_step_def Let_def
      split: option.splits prod.splits)

lemma dbInitGenerator_generateCode_passes:
  assumes "dbInitGenerator_generateCode E h w = (res, w')"
  shows "dbinit_passes (new_events w w') = [h]"
proof -
  from dbInitGenerator_generateCode_saves[OF assms] obtain rs
    where "trace w' = trace w @ DBInitPass h # map SaveFiles rs" by blast
  moreover have "dbinit_passes (map SaveFiles rs) = []" by (induction rs) auto
  ultimately show ?thesis by (simp add: new_events_def)
qed

lemma dbinit_passes_SaveFiles [simp]: "dbinit_passes (map SaveFiles rs) = []"
  by (induction rs) auto

lemma GenerateDBInitCommand_passes:
  "\<forall>h \<in> set (dbinit_passes (new_events w (snd (GenerateDBInitCommand E mn drv outPath w)))).
     dbinit_moduleName h =
       (if fst (getNamesFromOutDir w outPath) \<noteq> [] then fst (getNamesFromOutDir w outPath)
        else mn)"
proof -
  let ?md = "fst (getNamesFromOutDir w outPath)"
  let ?m = "if ?md \<noteq> [] then ?md else mn"
  let ?h = "\<lparr>dbinit_moduleName = ?m, dbinit_dbDriver = drv, dbinit_outPath = outPath\<rparr>"
  let ?run = "GenerateDBInitCommand E mn drv outPath w"
  have "\<exists>evs. trace (snd ?run) = trace w @ evs \<and> set (dbinit_passes evs) \<subseteq> {?h}"
  proof (cases "?md = [] \<and> mn = []")
    case True
    then have "trace (snd ?run) = trace w @ []"
      by (simp add: GenerateDBInitCommand_def Let_def)
    then show ?thesis by fastforce
  next
    case named: False
    show ?thesis
    proof (cases "outPath \<noteq> [] \<and> IsExists (disk w) ''internal/model/init.go''")
      case True
      with named have "trace (snd ?run) =
          trace w @ [Printf (AlreadyExists ''internal/model/init.go'')]"
        by (auto simp: GenerateDBInitCommand_def Let_def emit_def)
      then show ?thesis by fastforce
    next
      case False
      obtain res w' where g: "dbInitGenerator_generateCode E ?h w = (res, w')"
        by (cases "dbInitGenerator_generateCode E ?h w")
      from dbInitGenerator_generateCode_saves[OF g] obtain rs
        where tr: "trace w' = trace w @ DBInitPass ?h # map SaveFiles rs" by blast
      have "\<exists>ps. trace (snd ?run) = trace w' @ map Printf ps"
      proof (cases res)
        case (Inl e)
        with named False g have "trace (snd ?run) = trace w' @ map Printf []"
          by (auto simp: GenerateDBInitCommand_def Let_def)
        then show ?thesis by blast
      next
        case (Inr out)
        with named False g have "\<exists>p. trace (snd ?run) = trace w' @ map Printf
            ((if outPath = [] then [DBInitUsingHelp] else []) @ [p])"
          by (auto simp: GenerateDBInitCommand_def Let_def emit_def)
        then show ?thesis by blast
      qed
      then obtain ps where "trace (snd ?run) = trace w' @ map Printf ps" by blast
      with tr have "trace (snd ?run) =
          trace w @ (DBInitPass ?h # map SaveFiles rs @ map Printf ps)" by simp
      moreover have "dbinit_passes (map Printf ps) = []" by (induction ps) auto
      ultimately show ?thesis by fastforce
    qed
  qed
  then obtain evs where "trace (snd ?run) = trace w @ evs"
    and "set (dbinit_passes evs) \<subseteq> {?h}" by blast
  then show ?thesis by (auto simp: new_events_def)
qed

text \<open>
  Claim C8. A successful primary rpc pass stores the module name and the server name of
  its generator under the output directory it returns. The database-initialization
  command run on a directory reads the record back: a recovered module name that is not
  empty is the module name of the pass, whatever the flag says; with nothing recovered the
  flag is used; and the command fails with \<open>module-name not set\<close> exactly when nothing is
  recovered and the flag is empty.
\<close>

theorem C8_generation_info_recovered:
  "(rpcGenerator_generateCode E g w = (Inr out, w1) \<longrightarrow>
      getNamesFromOutDir w1 out = (rpc_moduleName g, rpc_serverName g)) \<and>
   (fst (getNamesFromOutDir v outPath) \<noteq> [] \<longrightarrow>
      (\<forall>h \<in> set (dbinit_passes
                  (new_events v (snd (GenerateDBInitCommand E mn drv outPath v)))).
         dbinit_moduleName h = fst (getNamesFromOutDir v outPath))) \<and>
   (fst (getNamesFromOutDir v outPath) = [] \<longrightarrow>
      (\<forall>h \<in> set (dbinit_passes
                  (new_events v (snd (GenerateDBInitCommand E mn drv outPath v)))).
         dbinit_moduleName h = mn)) \<and>
   ((fst (GenerateDBInitCommand E mn drv outPath v) = Some ErrModuleNameNotSet) =
      (fst (getNamesFromOutDir v outPath) = [] \<and> mn = []))"
proof (intro conjI impI)
  assume "rpcGenerator_generateCode E g w = (Inr out, w1)"
  then show "getNamesFromOutDir w1 out = (rpc_moduleName g, rpc_serverName g)"
    by (rule rpcGenerator_generateCode_gen_info)
next
  assume "fst (getNamesFromOutDir v outPath) \<noteq> []"
  with GenerateDBInitCommand_passes[of v E mn drv outPath]
  show "\<forall>h \<in> set (dbinit_passes
                  (new_events v (snd (GenerateDBInitCommand E mn drv outPath v)))).
         dbinit_moduleName h = fst (getNamesFromOutDir v outPath)" by simp
next
  assume "fst (getNamesFromOutDir v outPath) = []"
  with GenerateDBInitCommand_passes[of v E mn drv outPath]
  show "\<forall>h \<in> set (dbinit_passes
                  (new_events v (snd (GenerateDBInitCommand E mn drv outPath v)))).
         dbinit_moduleName h = mn" by simp
next
  show "(fst (GenerateDBInitCommand E mn drv outPath v) = Some ErrModuleNameNotSet) =
      (fst (getNamesFromOutDir v outPath) = [] \<and> mn = [])"
  proof
    assume e: "fst (GenerateDBInitCommand E mn drv outPath v) = Some ErrModuleNameNotSet"
    show "fst (getNamesFromOutDir v outPath) = [] \<and> mn = []"
    proof (rule ccontr)
      assume n: "\<not> (fst (getNamesFromOutDir v outPath) = [] \<and> mn = [])"
      let ?m = "if fst (getNamesFromOutDir v outPath) \<noteq> []
                then fst (getNamesFromOutDir v outPath) else mn"
      let ?h = "\<lparr>dbinit_moduleName = ?m, dbinit_dbDriver = drv, dbinit_outPath = outPath\<rparr>"
      from dbInitGenerator_generateCode_error[of E ?h v] e n show False
        by (auto simp: GenerateDBInitCommand_def Let_def
            split: if_splits prod.splits sum.splits)
    qed
  next
    assume "fst (getNamesFromOutDir v outPath) = [] \<and> mn = []"
    then show "fst (GenerateDBInitCommand E mn drv outPath v) = Some ErrModuleNameNotSet"
      by (simp add: GenerateDBInitCommand_def Let_def)
  qed
qed

theorem C8_generation_info_recovered_witness:
  "rpcGenerator_generateCode E0 g_shop w0 = (Inr ''user_rpc_150405'', w_shop) \<and>
   getNamesFromOutDir w_shop ''user_rpc_150405'' = (''shop'', ''user'') \<and>
   map dbinit_moduleName (dbinit_passes (new_events w_shop
     (snd (GenerateDBInitCommand E0 ''other'' ''mysql'' ''user_rpc_150405'' w_shop)))) =
     [''shop''] \<and>
   fst (GenerateDBInitCommand E0 [] ''mysql'' ''user_rpc_150405'' w_shop) = None \<and>
   fst (getNamesFromOutDir w_shop ''elsewhere'') = [] \<and>
   map dbinit_moduleName (dbinit_passes (new_events w_shop
     (snd (GenerateDBInitCommand E0 ''other'' ''mysql'' ''elsewhere'' w_shop)))) =
     [''other''] \<and>
   fst (GenerateDBInitCommand E0 [] ''mysql'' ''elsewhere'' w_shop) = Some ErrModuleNameNotSet"
proof -
  note defs = w_shop_def dbinit_run_defs rpc_run_defs g_shop_def g_oracle_def E0_def w0_def
  have r: "rpcGenerator_generateCode E0 g_shop w0 = (Inr ''user_rpc_150405'', w_shop)"
    by (simp add: defs)
  have n1: "getNamesFromOutDir w_shop ''user_rpc_150405'' = (''shop'', ''user'')"
    using C8_generation_info_recovered[of E0 g_shop w0 "''user_rpc_150405''" w_shop] r
    by (simp add: g_shop_def g_oracle_def)
  have p1: "map dbinit_moduleName (dbinit_passes (new_events w_shop
     (snd (GenerateDBInitCommand E0 ''other'' ''mysql'' ''user_rpc_150405'' w_shop)))) =
     [''shop'']"
    by (simp add: defs)
  have e1: "fst (GenerateDBInitCommand E0 [] ''mysql'' ''user_rpc_150405'' w_shop) = None"
    by (simp add: defs)
  have n2: "fst (getNamesFromOutDir w_shop ''elsewhere'') = []"
    by (simp add: defs)
  have p2: "map dbinit_moduleName (dbinit_passes (new_events w_shop
     (snd (GenerateDBInitCommand E0 ''other'' ''mysql'' ''elsewhere'' w_shop)))) =
     [''other'']"
    by (simp add: defs)
  have e2: "fst (GenerateDBInitCommand E0 [] ''mysql'' ''elsewhere'' w_shop) =
      Some ErrModuleNameNotSet"
    using C8_generation_info_recovered[of E0 g_shop w0 "''user_rpc_150405''" w_shop
        w_shop "''elsewhere''" "[]" "''mysql''"] n2
    by simp
  from r n1 p1 e1 n2 p2 e2 show ?thesis by simp
qed

subsection \<open>A failing table stops the command\<close>

lemma for_range_append:
  "for_range body (xs @ ys) st =
     (case for_range body xs st of
        (Some e, s) \<Rightarrow> (Some e, s)
      | (None, s) \<Rightarrow> for_range body ys s)"
  by (induction xs arbitrary: st) (auto split: prod.splits option.splits)

lemma for_range_fails_at:
  assumes "for_range body pre st = (None, st1)" and "body t st1 = (Some e, st2)"
  shows "for_range body (pre @ t # post) st = (Some e, st2)"
  using assms by (simp add: for_range_append)

lemma strings_Split_nonempty: "strings_Split s c \<noteq> []"
  by (induction s) (auto split: list.splits)

lemma strings_Split_append:
  "strings_Split (xs @ c # ys) c = strings_Split xs c @ strings_Split ys c"
  by (induction xs) (auto split: list.splits simp: strings_Split_nonempty)

lemma ModelCommand_alt:
  "ModelCommand E fl w =
     (case ModelCommand_loop E (strings_Split (mflag_dbTables fl) CHR '','')
             (ModelCommand_start fl w) of
        (Some e, st1) \<Rightarrow> (Some e, st_world st1)
      | (None, st1) \<Rightarrow>
          (None, emit (Printf (ModelSuccess (st_outPath st1)))
                   (emit (Printf ModelUsingHelp) (st_world st1))))"
  by (simp add: ModelCommand_def ModelCommand_start_def Let_def)

lemma RPCCommand_alt:
  assumes "strings_Split (flag_dbTables fl) CHR '','' = first # rest"
  shows "RPCCommand E fl w =
     (case RPCCommand_primary E fl (rpc_projectName' E fl) (rpc_serverName' E fl) first w of
        (Some e, st1) \<Rightarrow> (Some e, st_world st1)
      | (None, st1) \<Rightarrow>
          (case RPCCommand_loop E (flag_moduleName fl) (rpc_serverName' E fl) rest st1 of
             (Some e, st2) \<Rightarrow> (Some e, st_world st2)
           | (None, st2) \<Rightarrow>
               (let w4 = emit (Printf (RPCSuccess (rpc_serverName' E fl) (st_outPath st2)))
                           (emit (Printf RPCUsingHelp) (st_world st2))
                in (None,
                    w4\<lparr>disk := generateConfigmap E (rpc_serverName' E fl) (st_outPath st2)
                                 (disk w4)\<rparr>))))"
  using assms
  by (auto simp: RPCCommand_def rpc_projectName'_def rpc_serverName'_def Let_def
      split: prod.splits option.splits)

lemma emit_simps [simp]:
  "Replacers (emit ev w) = Replacers w"
  "disk (emit ev w) = disk w"
  "gen_info (emit ev w) = gen_info w"
  "trace (emit ev w) = trace w @ [ev]"
  by (simp_all add: emit_def)

lemma SaveFiles_step_failure_disk:
  assumes "SaveFiles_step E r w = (Inl e, w')"
  shows "\<exists>m. e = ErrSaveFiles m \<and> disk w' = snd (replacer_SaveFiles E r (disk w))"
  using assms
  by (auto simp: SaveFiles_step_def Let_def emit_def split: prod.splits option.splits)

lemma modelGenerator_generateCode_failure_disk:
  assumes "modelGenerator_generateCode E g w = (Inl e, w')"
  shows "e = ErrReplacerIsNil \<and> disk w' = disk w \<or>
         (\<exists>m r. e = ErrSaveFiles m \<and> disk w' = snd (replacer_SaveFiles E r (disk w)))"
proof (cases "Replacers w")
  case None
  with assms show ?thesis
    by (auto simp: modelGenerator_generateCode_def Let_def emit_def)
next
  case (Some r)
  with assms obtain r5 where "SaveFiles_step E r5 (emit (ModelPass g) w) = (Inl e, w')"
    by (auto simp: modelGenerator_generateCode_def Let_def)
  from SaveFiles_step_failure_disk[OF this] show ?thesis
    by (auto simp: emit_def)
qed

lemma ModelCommand_body_failure_disk:
  assumes "ModelCommand_body E t st1 = (Some e, st2)"
  shows "((\<exists>m. e = ErrSql2code m) \<or> e = ErrReplacerIsNil) \<and>
           disk (st_world st2) = disk (st_world st1) \<or>
         (\<exists>m r. e = ErrSaveFiles m \<and>
            disk (st_world st2) = snd (replacer_SaveFiles E r (disk (st_world st1))))"
proof (cases "t = []")
  case True
  with assms show ?thesis by (simp add: ModelCommand_body_def)
next
  case False
  let ?a1 = "if DBDriver (st_sqlArgs st1) = DBDriverMongodb
             then (st_sqlArgs st1)\<lparr>IsEmbed := False\<rparr> else st_sqlArgs st1"
  let ?a2 = "?a1\<lparr>DBTable := t\<rparr>"
  let ?w1 = "emit (Sql2codeGenerate ?a2) (st_world st1)"
  show ?thesis
  proof (cases "sql2code_Generate E ?a2")
    case (Inl m)
    with False assms have "e = ErrSql2code m" "st_world st2 = ?w1"
      by (auto simp: ModelCommand_body_def Let_def)
    then show ?thesis by (simp add: emit_def)
  next
    case (Inr cs)
    let ?g = "\<lparr>model_codes = cs, model_outPath = st_outPath st1\<rparr>"
    from Inr False assms obtain w2
      where "modelGenerator_generateCode E ?g ?w1 = (Inl e, w2)" "st_world st2 = w2"
      by (auto simp: ModelCommand_body_def Let_def split: prod.splits sum.splits)
    with modelGenerator_generateCode_failure_disk[of E ?g ?w1 e w2]
    show ?thesis by (auto simp: emit_def)
  qed
qed

lemma RPCCommand_body_failure_disk:
  assumes "RPCCommand_body E mn sn t st1 = (Some e, st2)"
  shows "(\<exists>m. e = ErrSql2code m) \<and> disk (st_world st2) = disk (st_world st1) \<or>
         (\<exists>m sg. e = ErrService m \<and>
            disk (st_world st2) = snd (service_generateCode E sg (disk (st_world st1))))"
  using assms
  by (auto simp: RPCCommand_body_def serviceGenerator_generateCode_def
      Let_def emit_def split: if_splits sum.splits prod.splits option.splits)
    (metis snd_conv)+

text \<open>
  Claim C5. Let the passes for the tables before \<open>t\<close> be completed and the step for \<open>t\<close>
  (the schema-to-code call or the generation pass) fail with \<open>e\<close>, leaving the state
  \<open>st2\<close>. Then the command returns \<open>e\<close> in the world of \<open>st2\<close>, whatever tables are
  listed after \<open>t\<close>: no event and no disk change follows the failing step. The disk of
  \<open>st2\<close> is the disk the completed passes left when the schema-to-code call failed, and
  otherwise what the failing pass itself left; nothing is rolled back. This holds for the
  model command, for the primary table of the rpc command and for its secondary tables.
\<close>

theorem C5_failure_stops_remaining_passes:
  "(strings_Split (mflag_dbTables mf) CHR '','' = pre @ t # post \<and>
    ModelCommand_loop E pre (ModelCommand_start mf w) = (None, st1) \<and>
    ModelCommand_body E t st1 = (Some e, st2) \<longrightarrow>
      ModelCommand E mf w = (Some e, st_world st2) \<and>
      (((\<exists>m. e = ErrSql2code m) \<or> e = ErrReplacerIsNil) \<and>
         disk (st_world st2) = disk (st_world st1) \<or>
       (\<exists>m r. e = ErrSaveFiles m \<and>
          disk (st_world st2) = snd (replacer_SaveFiles E r (disk (st_world st1)))))) \<and>
   (strings_Split (flag_dbTables rf) CHR '','' = first # rest \<and>
    RPCCommand_primary E rf (rpc_projectName' E rf) (rpc_serverName' E rf) first w =
      (Some e, st2) \<longrightarrow>
      RPCCommand E rf w = (Some e, st_world st2)) \<and>
   (strings_Split (flag_dbTables rf) CHR '','' = first # pre @ t # post \<and>
    RPCCommand_primary E rf (rpc_projectName' E rf) (rpc_serverName' E rf) first w =
      (None, st0) \<and>
    RPCCommand_loop E (flag_moduleName rf) (rpc_serverName' E rf) pre st0 = (None, st1) \<and>
    RPCCommand_body E (flag_moduleName rf) (rpc_serverName' E rf) t st1 = (Some e, st2) \<longrightarrow>
      RPCCommand E rf w = (Some e, st_world st2) \<and>
      ((\<exists>m. e = ErrSql2code m) \<and> disk (st_world st2) = disk (st_world st1) \<or>
       (\<exists>m sg. e = ErrService m \<and>
          disk (st_world st2) = snd (service_generateCode E sg (disk (st_world st1))))))"
proof (intro conjI impI)
  assume a: "strings_Split (mflag_dbTables mf) CHR '','' = pre @ t # post \<and>
    ModelCommand_loop E pre (ModelCommand_start mf w) = (None, st1) \<and>
    ModelCommand_body E t st1 = (Some e, st2)"
  then have "ModelCommand_loop E (pre @ t # post) (ModelCommand_start mf w) = (Some e, st2)"
    unfolding ModelCommand_loop_def by (auto intro: for_range_fails_at)
  with a show "ModelCommand E mf w = (Some e, st_world st2)"
    by (simp add: ModelCommand_alt)
  from a show "((\<exists>m. e = ErrSql2code m) \<or> e = ErrReplacerIsNil) \<and>
         disk (st_world st2) = disk (st_world st1) \<or>
       (\<exists>m r. e = ErrSaveFiles m \<and>
          disk (st_world st2) = snd (replacer_SaveFiles E r (disk (st_world st1))))"
    using ModelCommand_body_failure_disk by blast
next
  assume "strings_Split (flag_dbTables rf) CHR '','' = first # rest \<and>
    RPCCommand_primary E rf (rpc_projectName' E rf) (rpc_serverName' E rf) first w =
      (Some e, st2)"
  then show "RPCCommand E rf w = (Some e, st_world st2)"
    by (simp add: RPCCommand_alt)
next
  assume a: "strings_Split (flag_dbTables rf) CHR '','' = first # pre @ t # post \<and>
    RPCCommand_primary E rf (rpc_projectName' E rf) (rpc_serverName' E rf) first w =
      (None, st0) \<and>
    RPCCommand_loop E (flag_moduleName rf) (rpc_serverName' E rf) pre st0 = (None, st1) \<and>
    RPCCommand_body E (flag_moduleName rf) (rpc_serverName' E rf) t st1 = (Some e, st2)"
  then have "RPCCommand_loop E (flag_moduleName rf) (rpc_serverName' E rf) (pre @ t # post) st0 =
      (Some e, st2)"
    unfolding RPCCommand_loop_def by (auto intro: for_range_fails_at)
  with a show "RPCCommand E rf w = (Some e, st_world st2)"
    by (simp add: RPCCommand_alt)
  from a show "(\<exists>m. e = ErrSql2code m) \<and> disk (st_world st2) = disk (st_world st1) \<or>
       (\<exists>m sg. e = ErrService m \<and>
          disk (st_world st2) = snd (service_generateCode E sg (disk (st_world st1))))"
    using RPCCommand_body_failure_disk by blast
qed

theorem C5_failure_stops_remaining_passes_witness:
  "strings_Split (mflag_dbTables mflags_missing) CHR '','' = [''user''] @ ''missing'' # [''order''] \<and>
   ModelCommand_loop E0 [''user''] (ModelCommand_start mflags_missing w0) = (None, m_st1) \<and>
   ModelCommand_body E0 ''missing'' m_st1 = (Some (ErrSql2code ''table not found''), m_st2) \<and>
   ModelCommand E0 mflags_missing w0 = (Some (ErrSql2code ''table not found''), st_world m_st2) \<and>
   map DBTable (generate_calls (trace (st_world m_st2))) = [''user'', ''missing''] \<and>
   disk (st_world m_st2) = disk (st_world m_st1) \<and>
   disk (st_world m_st2) ''model_150405/internal/model/init.go'' = Some ''generated'' \<and>
   strings_Split (flag_dbTables flags_missing) CHR '','' =
     ''user'' # [''item''] @ ''missing'' # [''order''] \<and>
   RPCCommand_primary E0 flags_missing (rpc_projectName' E0 flags_missing)
     (rpc_serverName' E0 flags_missing) ''user'' w0 = (None, r_st0) \<and>
   RPCCommand_loop E0 (flag_moduleName flags_missing) (rpc_serverName' E0 flags_missing)
     [''item''] r_st0 = (None, r_st1) \<and>
   RPCCommand_body E0 (flag_moduleName flags_missing) (rpc_serverName' E0 flags_missing)
     ''missing'' r_st1 = (Some (ErrSql2code ''table not found''), r_st2) \<and>
   RPCCommand E0 flags_missing w0 = (Some (ErrSql2code ''table not found''), st_world r_st2) \<and>
   map DBTable (generate_calls (trace (st_world r_st2))) = [''user'', ''item'', ''missing''] \<and>
   disk (st_world r_st2) = disk (st_world r_st1) \<and>
   disk (st_world r_st2) ''user_rpc_150405/service'' = Some ''code''"
proof -
  note mdefs = m_st1_def m_st2_def ModelCommand_start_def model_run_defs mflags_missing_def
    mflags0_def E0_def w0_def
  note rdefs = r_st0_def r_st1_def r_st2_def rpc_projectName'_def rpc_serverName'_def
    rpc_run_defs flags_missing_def flags0_def E0_def w0_def
  have m0: "strings_Split (mflag_dbTables mflags_missing) CHR '','' =
      [''user''] @ ''missing'' # [''order'']"
    by (simp add: mflags_missing_def mflags0_def)
  have m1: "ModelCommand_loop E0 [''user''] (ModelCommand_start mflags_missing w0) = (None, m_st1)"
    by (simp add: prod_eq_iff m_st1_def) (simp add: mdefs)
  have m2: "ModelCommand_body E0 ''missing'' m_st1 =
      (Some (ErrSql2code ''table not found''), m_st2)"
    by (simp add: prod_eq_iff m_st2_def) (simp add: mdefs)
  have m3: "map DBTable (generate_calls (trace (st_world m_st2))) = [''user'', ''missing'']"
    by (simp add: mdefs)
  have m4: "disk (st_world m_st2) ''model_150405/internal/model/init.go'' = Some ''generated''"
    by (simp add: mdefs)
  have r0: "strings_Split (flag_dbTables flags_missing) CHR '','' =
      ''user'' # [''item''] @ ''missing'' # [''order'']"
    by (simp add: flags_missing_def flags0_def)
  have r1: "RPCCommand_primary E0 flags_missing (rpc_projectName' E0 flags_missing)
     (rpc_serverName' E0 flags_missing) ''user'' w0 = (None, r_st0)"
    by (simp add: prod_eq_iff r_st0_def) (simp add: rdefs)
  have r2: "RPCCommand_loop E0 (flag_moduleName flags_missing) (rpc_serverName' E0 flags_missing)
     [''item''] r_st0 = (None, r_st1)"
    by (simp add: prod_eq_iff r_st1_def) (simp add: rdefs)
  have r3: "RPCCommand_body E0 (flag_moduleName flags_missing) (rpc_serverName' E0 flags_missing)
     ''missing'' r_st1 = (Some (ErrSql2code ''table not found''), r_st2)"
    by (simp add: prod_eq_iff r_st2_def) (simp add: rdefs)
  have r4: "map DBTable (generate_calls (trace (st_world r_st2))) =
      [''user'', ''item'', ''missing'']"
    by (simp add: rdefs)
  have r5: "disk (st_world r_st2) ''user_rpc_150405/service'' = Some ''code''"
    by (simp add: rdefs)
  note inst_m = C5_failure_stops_remaining_passes[where mf = mflags_missing and pre = "[''user'']"
      and t = "''missing''" and post = "[''order'']" and E = E0 and w = w0 and ?st1.0 = m_st1
      and e = "ErrSql2code ''table not found''" and ?st2.0 = m_st2]
  note inst_r = C5_failure_stops_remaining_passes[where rf = flags_missing and pre = "[''item'']"
      and t = "''missing''" and post = "[''order'']" and E = E0 and w = w0 and ?st1.0 = r_st1
      and e = "ErrSql2code ''table not found''" and ?st2.0 = r_st2 and ?st0.0 = r_st0
      and first = "''user''"]
  from inst_m m0 m1 m2 have cm: "ModelCommand E0 mflags_missing w0 =
      (Some (ErrSql2code ''table not found''), st_world m_st2) \<and>
      disk (st_world m_st2) = disk (st_world m_st1)"
    by simp
  from inst_r r0 r1 r2 r3 have cr: "RPCCommand E0 flags_missing w0 =
      (Some (ErrSql2code ''table not found''), st_world r_st2) \<and>
      disk (st_world r_st2) = disk (st_world r_st1)"
    by simp
  from m0 m1 m2 m3 m4 r0 r1 r2 r3 r4 r5 cm cr show ?thesis by simp
qed

subsection \<open>The output path threaded through the passes\<close>

lemma threaded_append:
  "threaded prev (xs @ ys) = (threaded prev xs \<and> threaded (last_returned prev xs) ys)"
  by (induction prev xs rule: threaded.induct) auto

lemma last_returned_append:
  "last_returned prev (xs @ ys) = last_returned (last_returned prev xs) ys"
  by (induction prev xs rule: last_returned.induct) auto

lemma threaded_SaveFiles [simp]: "threaded prev (map SaveFiles rs)"
  by (induction rs) auto

lemma last_returned_SaveFiles [simp]: "last_returned prev (map SaveFiles rs) = prev"
  by (induction rs) auto

lemma service_passes_append [simp]:
  "service_passes (xs @ ys) = service_passes xs @ service_passes ys"
  by (induction xs rule: service_passes.induct) auto

lemma service_passes_SaveFiles [simp]: "service_passes (map SaveFiles rs) = []"
  by (induction rs) auto

text \<open>
  One iteration of the secondary loop: the table is appended to the tables called for
  unless it is empty; a pass that is entered receives the current output path; after an
  iteration that goes on, the current output path is the one returned last.
\<close>

lemma RPCCommand_body_threaded:
  assumes "RPCCommand_body E mn sn t st = (res, st')"
  shows "\<exists>evs. trace (st_world st') = trace (st_world st) @ evs \<and>
           threaded (Some (st_outPath st)) evs \<and>
           map DBTable (generate_calls evs) = filter (\<lambda>t. t \<noteq> []) [t] \<and>
           (res = None \<longrightarrow> map (\<lambda>sg. Inr (svc_codes sg)) (service_passes evs) =
              map (sql2code_Generate E) (generate_calls evs)) \<and>
           (res = None \<longrightarrow> last_returned (Some (st_outPath st)) evs = Some (st_outPath st'))"
proof (cases "t = []")
  case True
  with assms have "trace (st_world st') = trace (st_world st) @ []" "st' = st"
    by (simp_all add: RPCCommand_body_def)
  with True show ?thesis by fastforce
next
  case False
  let ?a = "(st_sqlArgs st)\<lparr>DBTable := t\<rparr>"
  let ?w1 = "emit (Sql2codeGenerate ?a) (st_world st)"
  show ?thesis
  proof (cases "sql2code_Generate E ?a")
    case (Inl m)
    with False assms have "trace (st_world st') = trace (st_world st) @ [Sql2codeGenerate ?a]"
      "res \<noteq> None"
      by (auto simp: RPCCommand_body_def Let_def)
    with False show ?thesis by fastforce
  next
    case (Inr cs)
    let ?sg = "\<lparr>svc_moduleName = mn, svc_serverName = sn, svc_dbDriver = DBDriver ?a,
                svc_isEmbed = IsEmbed ?a, svc_codes = cs, svc_outPath = st_outPath st\<rparr>"
    obtain r2 w2 where g: "serviceGenerator_generateCode E ?sg ?w1 = (r2, w2)"
      by (cases "serviceGenerator_generateCode E ?sg ?w1")
    from serviceGenerator_generateCode_trace[OF g]
    have t2: "trace w2 = trace (st_world st) @ [Sql2codeGenerate ?a, ServicePass ?sg]"
      by simp
    show ?thesis
    proof (cases r2)
      case (Inl e)
      with Inr False assms g have "st_world st' = w2" "res \<noteq> None"
        by (auto simp: RPCCommand_body_def Let_def)
      with t2 False show ?thesis by fastforce
    next
      case out: (Inr out)
      with Inr False assms g have "st_world st' = emit (PassReturned out) w2"
        "st_outPath st' = out"
        by (auto simp: RPCCommand_body_def Let_def)
      with t2 have "trace (st_world st') = trace (st_world st) @
          [Sql2codeGenerate ?a, ServicePass ?sg, PassReturned out]" "st_outPath st' = out"
        by simp_all
      with False Inr show ?thesis by fastforce
    qed
  qed
qed

lemma RPCCommand_loop_threaded:
  assumes "RPCCommand_loop E mn sn ts st = (res, st')"
  shows "\<exists>evs. trace (st_world st') = trace (st_world st) @ evs \<and>
           threaded (Some (st_outPath st)) evs \<and>
           rpc_passes evs = [] \<and>
           prefix (map DBTable (generate_calls evs)) (filter (\<lambda>t. t \<noteq> []) ts) \<and>
           (res = None \<longrightarrow>
              map DBTable (generate_calls evs) = filter (\<lambda>t. t \<noteq> []) ts \<and>
              map (\<lambda>sg. Inr (svc_codes sg)) (service_passes evs) =
                map (sql2code_Generate E) (generate_calls evs) \<and>
              last_returned (Some (st_outPath st)) evs = Some (st_outPath st'))"
  using assms unfolding RPCCommand_loop_def
proof (induction ts arbitrary: st)
  case Nil
  then have "trace (st_world st') = trace (st_world st) @ []" "st' = st" "res = None"
    by simp_all
  then show ?case by fastforce
next
  case (Cons t ts)
  obtain r1 s1 where b: "RPCCommand_body E mn sn t st = (r1, s1)"
    by (cases "RPCCommand_body E mn sn t st")
  from RPCCommand_body_threaded[OF b] obtain evs1 where
    e1: "trace (st_world s1) = trace (st_world st) @ evs1"
    "threaded (Some (st_outPath st)) evs1"
    "map DBTable (generate_calls evs1) = filter (\<lambda>t. t \<noteq> []) [t]"
    "r1 = None \<longrightarrow> map (\<lambda>sg. Inr (svc_codes sg)) (service_passes evs1) =
              map (sql2code_Generate E) (generate_calls evs1)"
    "r1 = None \<longrightarrow> last_returned (Some (st_outPath st)) evs1 = Some (st_outPath s1)"
    by blast
  from RPCCommand_body_passes[OF b] e1(1) have p1: "rpc_passes evs1 = []" by auto
  show ?case
  proof (cases r1)
    case (Some e)
    with b Cons.prems have "st' = s1" "res \<noteq> None" by auto
    with e1 p1 show ?thesis by (fastforce simp: prefix_def)
  next
    case None
    with b Cons.prems have "for_range (RPCCommand_body E mn sn) ts s1 = (res, st')" by simp
    from Cons.IH[OF this] obtain evs2 where
      e2: "trace (st_world st') = trace (st_world s1) @ evs2"
      "threaded (Some (st_outPath s1)) evs2" "rpc_passes evs2 = []"
      "prefix (map DBTable (generate_calls evs2)) (filter (\<lambda>t. t \<noteq> []) ts)"
      "res = None \<longrightarrow>
         map DBTable (generate_calls evs2) = filter (\<lambda>t. t \<noteq> []) ts \<and>
         map (\<lambda>sg. Inr (svc_codes sg)) (service_passes evs2) =
           map (sql2code_Generate E) (generate_calls evs2) \<and>
         last_returned (Some (st_outPath s1)) evs2 = Some (st_outPath st')"
      by blast
    from e1 e2 None p1 have
      "trace (st_world st') = trace (st_world st) @ (evs1 @ evs2)"
      "threaded (Some (st_outPath st)) (evs1 @ evs2)"
      "rpc_passes (evs1 @ evs2) = []"
      "prefix (map DBTable (generate_calls (evs1 @ evs2))) (filter (\<lambda>t. t \<noteq> []) (t # ts))"
      "res = None \<longrightarrow>
         map DBTable (generate_calls (evs1 @ evs2)) = filter (\<lambda>t. t \<noteq> []) (t # ts) \<and>
         map (\<lambda>sg. Inr (svc_codes sg)) (service_passes (evs1 @ evs2)) =
           map (sql2code_Generate E) (generate_calls (evs1 @ evs2)) \<and>
         last_returned (Some (st_outPath st)) (evs1 @ evs2) = Some (st_outPath st')"
      by (auto simp: threaded_append last_returned_append)
    then show ?thesis by blast
  qed
qed

lemma RPCCommand_primary_threaded:
  assumes "RPCCommand_primary E fl pn sn t w = (res, st')"
  shows "\<exists>evs. trace (st_world st') = trace w @ evs \<and>
           threaded None evs \<and> service_passes evs = [] \<and>
           map DBTable (generate_calls evs) = [t] \<and>
           (\<forall>g \<in> set (rpc_passes evs). rpc_outPath g = flag_outPath fl) \<and>
           (res = None \<longrightarrow> last_returned None evs = Some (st_outPath st'))"
proof -
  let ?a0 = "init_sqlArgs (flag_dbDriver fl) (flag_dbDSN fl) (flag_isEmbed fl)
               (flag_jsonNamedType fl)"
  let ?a1 = "if DBDriver ?a0 = DBDriverMongodb then ?a0\<lparr>IsEmbed := False\<rparr> else ?a0"
  let ?a2 = "?a1\<lparr>DBTable := t\<rparr>"
  let ?w1 = "emit (Sql2codeGenerate ?a2) w"
  show ?thesis
  proof (cases "sql2code_Generate E ?a2")
    case (Inl m)
    with assms have "trace (st_world st') = trace w @ [Sql2codeGenerate ?a2]" "res \<noteq> None"
      by (auto simp: RPCCommand_primary_def Let_def)
    then show ?thesis by fastforce
  next
    case (Inr cs)
    let ?g = "\<lparr>rpc_moduleName = flag_moduleName fl, rpc_serverName = sn,
               rpc_projectName = pn, rpc_repoAddr = flag_repoAddr fl,
               rpc_dbDSN = DBDsn ?a2, rpc_dbDriver = DBDriver ?a2,
               rpc_isEmbed = IsEmbed ?a2, rpc_codes = cs,
               rpc_outPath = flag_outPath fl\<rparr>"
    obtain r2 w2 where g: "rpcGenerator_generateCode E ?g ?w1 = (r2, w2)"
      by (cases "rpcGenerator_generateCode E ?g ?w1")
    from rpcGenerator_generateCode_trace[OF g] obtain rs where
      t2: "trace w2 = trace w @ Sql2codeGenerate ?a2 # RPCPass ?g # map SaveFiles rs"
      by auto
    show ?thesis
    proof (cases r2)
      case (Inl e)
      with Inr assms g have "st_world st' = w2" "res \<noteq> None"
        by (auto simp: RPCCommand_primary_def Let_def)
      with t2 show ?thesis by fastforce
    next
      case out: (Inr out)
      with Inr assms g have "st_world st' = emit (PassReturned out) w2" "st_outPath st' = out"
        by (auto simp: RPCCommand_primary_def Let_def)
      with t2 have "trace (st_world st') = trace w @
          (Sql2codeGenerate ?a2 # RPCPass ?g # map SaveFiles rs @ [PassReturned out])"
        "st_outPath st' = out"
        by simp_all
      then show ?thesis
        by (fastforce simp: threaded_append last_returned_append)
    qed
  qed
qed

lemma RPCCommand_threaded:
  assumes sp: "strings_Split (flag_dbTables fl) CHR '','' = first # rest"
  shows "\<exists>evs. trace (snd (RPCCommand E fl w)) = trace w @ evs \<and>
    threaded None evs \<and>
    (\<forall>g \<in> set (rpc_passes evs). rpc_outPath g = flag_outPath fl) \<and>
    prefix (map DBTable (generate_calls evs)) (first # filter (\<lambda>t. t \<noteq> []) rest) \<and>
    (fst (RPCCommand E fl w) = None \<longrightarrow>
       map DBTable (generate_calls evs) = first # filter (\<lambda>t. t \<noteq> []) rest \<and>
       map (\<lambda>sg. Inr (svc_codes sg)) (service_passes evs) =
         map (sql2code_Generate E) (tl (generate_calls evs)))"
proof -
  let ?pn = "rpc_projectName' E fl" and ?sn = "rpc_serverName' E fl"
  obtain r1 st1 where p: "RPCCommand_primary E fl ?pn ?sn first w = (r1, st1)"
    by (cases "RPCCommand_primary E fl ?pn ?sn first w")
  from RPCCommand_primary_threaded[OF p] obtain evs1 where
    e1: "trace (st_world st1) = trace w @ evs1" "threaded None evs1"
    "service_passes evs1 = []" "map DBTable (generate_calls evs1) = [first]"
    "\<forall>g \<in> set (rpc_passes evs1). rpc_outPath g = flag_outPath fl"
    "r1 = None \<longrightarrow> last_returned None evs1 = Some (st_outPath st1)"
    by (elim exE conjE) (rule that)
  show ?thesis
  proof (cases r1)
    case (Some e)
    with p have "RPCCommand E fl w = (Some e, st_world st1)"
      by (simp add: RPCCommand_alt[OF sp])
    with e1 show ?thesis by (fastforce simp: prefix_def)
  next
    case None
    obtain r2 st2 where l: "RPCCommand_loop E (flag_moduleName fl) ?sn rest st1 = (r2, st2)"
      by (cases "RPCCommand_loop E (flag_moduleName fl) ?sn rest st1")
    from RPCCommand_loop_threaded[OF l] obtain evs2 where
      e2: "trace (st_world st2) = trace (st_world st1) @ evs2"
      "threaded (Some (st_outPath st1)) evs2" "rpc_passes evs2 = []"
      "prefix (map DBTable (generate_calls evs2)) (filter (\<lambda>t. t \<noteq> []) rest)"
      "r2 = None \<longrightarrow>
         map DBTable (generate_calls evs2) = filter (\<lambda>t. t \<noteq> []) rest \<and>
         map (\<lambda>sg. Inr (svc_codes sg)) (service_passes evs2) =
           map (sql2code_Generate E) (generate_calls evs2) \<and>
         last_returned (Some (st_outPath st1)) evs2 = Some (st_outPath st2)"
      by blast
    from e1(4) obtain a where a: "generate_calls evs1 = [a]" by auto
    have th: "threaded None (evs1 @ evs2)"
      using e1 e2 None by (simp add: threaded_append)
    show ?thesis
    proof (cases r2)
      case (Some e)
      with p l None have "RPCCommand E fl w = (Some e, st_world st2)"
        by (simp add: RPCCommand_alt[OF sp])
      then have "trace (snd (RPCCommand E fl w)) = trace w @ (evs1 @ evs2)"
        "fst (RPCCommand E fl w) \<noteq> None"
        using e1 e2 by simp_all
      with th e1 e2 show ?thesis by (fastforce simp: prefix_def)
    next
      case ok: None
      let ?ps = "[Printf RPCUsingHelp, Printf (RPCSuccess ?sn (st_outPath st2))]"
      from ok p l None have "trace (snd (RPCCommand E fl w)) = trace (st_world st2) @ ?ps"
        by (simp add: RPCCommand_alt[OF sp] Let_def)
      then have tr: "trace (snd (RPCCommand E fl w)) = trace w @ (evs1 @ evs2 @ ?ps)"
        using e1 e2 by simp
      have "threaded None (evs1 @ evs2 @ ?ps)"
        using th by (simp add: threaded_append flip: append_assoc)
      moreover have "\<forall>g \<in> set (rpc_passes (evs1 @ evs2 @ ?ps)). rpc_outPath g = flag_outPath fl"
        using e1 e2 by simp
      moreover have "map DBTable (generate_calls (evs1 @ evs2 @ ?ps)) =
          first # filter (\<lambda>t. t \<noteq> []) rest"
        using e1 e2 ok by simp
      moreover have "map (\<lambda>sg. Inr (svc_codes sg)) (service_passes (evs1 @ evs2 @ ?ps)) =
          map (sql2code_Generate E) (tl (generate_calls (evs1 @ evs2 @ ?ps)))"
        using e1 e2 ok a by simp
      ultimately show ?thesis using tr by (metis prefix_order.order_refl)
    qed
  qed
qed

text \<open>
  Claim C4. In a run of the rpc command on the table list \<open>first # rest\<close>, every secondary
  pass is entered with the output path returned by the pass before it: the first one with
  the path returned by the primary pass, each later one with the path returned by the
  secondary pass before it. The primary pass is entered before any pass has returned, with
  the \<open>--out\<close> flag as its path. The collaborator is called for the primary table and then
  for the secondary tables that are not empty, in the listed order, and each secondary pass
  works on the code map generated for its table.
\<close>

theorem C4_output_path_threaded:
  "strings_Split (flag_dbTables fl) CHR '','' = first # rest \<longrightarrow>
    threaded None (new_events w (snd (RPCCommand E fl w))) \<and>
    (\<forall>g \<in> set (rpc_passes (new_events w (snd (RPCCommand E fl w)))).
       rpc_outPath g = flag_outPath fl) \<and>
    prefix (map DBTable (generate_calls (new_events w (snd (RPCCommand E fl w)))))
      (first # filter (\<lambda>t. t \<noteq> []) rest) \<and>
    (fst (RPCCommand E fl w) = None \<longrightarrow>
       map DBTable (generate_calls (new_events w (snd (RPCCommand E fl w)))) =
         first # filter (\<lambda>t. t \<noteq> []) rest \<and>
       map (\<lambda>sg. Inr (svc_codes sg))
           (service_passes (new_events w (snd (RPCCommand E fl w)))) =
         map (sql2code_Generate E)
           (tl (generate_calls (new_events w (snd (RPCCommand E fl w))))))"
proof
  assume "strings_Split (flag_dbTables fl) CHR '','' = first # rest"
  from RPCCommand_threaded[OF this, of E w] obtain evs where
    "trace (snd (RPCCommand E fl w)) = trace w @ evs" and
    r: "threaded None evs \<and>
    (\<forall>g \<in> set (rpc_passes evs). rpc_outPath g = flag_outPath fl) \<and>
    prefix (map DBTable (generate_calls evs)) (first # filter (\<lambda>t. t \<noteq> []) rest) \<and>
    (fst (RPCCommand E fl w) = None \<longrightarrow>
       map DBTable (generate_calls evs) = first # filter (\<lambda>t. t \<noteq> []) rest \<and>
       map (\<lambda>sg. Inr (svc_codes sg)) (service_passes evs) =
         map (sql2code_Generate E) (tl (generate_calls evs)))"
    by (elim exE) (rule that, auto)
  then have "new_events w (snd (RPCCommand E fl w)) = evs" by (simp add: new_events_def)
  with r show "threaded None (new_events w (snd (RPCCommand E fl w))) \<and>
    (\<forall>g \<in> set (rpc_passes (new_events w (snd (RPCCommand E fl w)))).
       rpc_outPath g = flag_outPath fl) \<and>
    prefix (map DBTable (generate_calls (new_events w (snd (RPCCommand E fl w)))))
      (first # filter (\<lambda>t. t \<noteq> []) rest) \<and>
    (fst (RPCCommand E fl w) = None \<longrightarrow>
       map DBTable (generate_calls (new_events w (snd (RPCCommand E fl w)))) =
         first # filter (\<lambda>t. t \<noteq> []) rest \<and>
       map (\<lambda>sg. Inr (svc_codes sg))
           (service_passes (new_events w (snd (RPCCommand E fl w)))) =
         map (sql2code_Generate E)
           (tl (generate_calls (new_events w (snd (RPCCommand E fl w))))))"
    by simp
qed

theorem C4_output_path_threaded_witness:
  "strings_Split (flag_dbTables flags_multi) CHR '','' = ''user'' # [''item'', [], ''order''] \<and>
   threaded None (new_events w0 (snd (RPCCommand E_chain flags_multi w0))) \<and>
   map rpc_outPath (rpc_passes (new_events w0 (snd (RPCCommand E_chain flags_multi w0)))) =
     [flag_outPath flags_multi] \<and>
   map svc_outPath (service_passes (new_events w0 (snd (RPCCommand E_chain flags_multi w0)))) =
     [''user_rpc_150405'', ''user_rpc_150405/next''] \<and>
   map DBTable (generate_calls (new_events w0 (snd (RPCCommand E_chain flags_multi w0)))) =
     [''user'', ''item'', ''order''] \<and>
   fst (RPCCommand E_chain flags_multi w0) = None"
proof -
  note defs = rpc_run_defs flags_multi_def flags0_def E_chain_def E0_def w0_def
  have sp: "strings_Split (flag_dbTables flags_multi) CHR '','' =
      ''user'' # [''item'', [], ''order'']"
    by (simp add: flags_multi_def flags0_def)
  have ok: "fst (RPCCommand E_chain flags_multi w0) = None"
    by (simp add: defs)
  have rp: "map rpc_outPath (rpc_passes (new_events w0
      (snd (RPCCommand E_chain flags_multi w0)))) = [flag_outPath flags_multi]"
    by (simp add: defs)
  have sv: "map svc_outPath (service_passes (new_events w0
      (snd (RPCCommand E_chain flags_multi w0)))) =
      [''user_rpc_150405'', ''user_rpc_150405/next'']"
    by (simp add: defs)
  from C4_output_path_threaded[of flags_multi "''user''" "[''item'', [], ''order'']" w0 E_chain]
    sp ok rp sv
  show ?thesis by simp
qed

subsection \<open>The random error-code line\<close>

lemma itoa_3_7: "itoa 3 = ''3''" "itoa 7 = ''7''"
  by (simp_all add: itoa.simps digit_char_def)

lemma rand_Intn_3_7:
  "rand_Intn (E\<lparr>rand_src := 3\<rparr>) 100 = 3" "rand_Intn (E\<lparr>rand_src := 7\<rparr>) 100 = 7"
  by (simp_all add: rand_Intn_def)

lemma markFields_rand_src:
  "rpcGenerator_markFields (E\<lparr>rand_src := k\<rparr>) g r = rpcGenerator_markFields E g r"
  by (simp add: rpcGenerator_markFields_def)

lemma literalFields_nth_25:
  "rpcGenerator_literalFields E g r ! 25 =
     Field ''_userExampleNO       = 2'' (''_userExampleNO       = '' @ itoa (rand_Intn E 100))"
  by (simp add: rpcGenerator_literalFields_def)

lemma literalFields_length: "length (rpcGenerator_literalFields E g r) = 41"
  by (simp add: rpcGenerator_literalFields_def)

text \<open>
  Claim C9. The field list of the rpc pass has a rule for the line
  \<open>_userExampleNO       = 2\<close> whose replacement ends in the decimal digits of
  \<open>rand.Intn(100)\<close>, a number below 100 drawn from the random source. The list is a function
  of its inputs and of that draw: for the same generator, replacer and environment apart
  from the state of the random source (here 3 and 7), the two field lists differ, and
  the rule rewrites the line to \<open>= 3\<close> in one run and to \<open>= 7\<close> in the other.
\<close>

theorem C9_error_code_line_is_random:
  "Field ''_userExampleNO       = 2'' (''_userExampleNO       = '' @ itoa (rand_Intn E 100))
     \<in> set (rpcGenerator_addFields E g r) \<and>
   rand_Intn E 100 < 100 \<and>
   rpcGenerator_addFields (E\<lparr>rand_src := 3\<rparr>) g r \<noteq>
     rpcGenerator_addFields (E\<lparr>rand_src := 7\<rparr>) g r \<and>
   apply_field (rpcGenerator_literalFields (E\<lparr>rand_src := 3\<rparr>) g r ! 25)
     ''_userExampleNO       = 2'' = ''_userExampleNO       = 3'' \<and>
   apply_field (rpcGenerator_literalFields (E\<lparr>rand_src := 7\<rparr>) g r ! 25)
     ''_userExampleNO       = 2'' = ''_userExampleNO       = 7''"
proof (intro conjI)
  have "rpcGenerator_literalFields E g r ! 25 \<in> set (rpcGenerator_literalFields E g r)"
    by (rule nth_mem) (simp add: literalFields_length)
  then show "Field ''_userExampleNO       = 2''
      (''_userExampleNO       = '' @ itoa (rand_Intn E 100)) \<in> set (rpcGenerator_addFields E g r)"
    by (simp add: literalFields_nth_25 rpcGenerator_addFields_def)
  show "rand_Intn E 100 < 100" by (simp add: rand_Intn_def)
  show "rpcGenerator_addFields (E\<lparr>rand_src := 3\<rparr>) g r \<noteq>
     rpcGenerator_addFields (E\<lparr>rand_src := 7\<rparr>) g r"
  proof
    assume "rpcGenerator_addFields (E\<lparr>rand_src := 3\<rparr>) g r =
      rpcGenerator_addFields (E\<lparr>rand_src := 7\<rparr>) g r"
    then have "rpcGenerator_literalFields (E\<lparr>rand_src := 3\<rparr>) g r =
      rpcGenerator_literalFields (E\<lparr>rand_src := 7\<rparr>) g r"
      by (simp add: rpcGenerator_addFields_def markFields_rand_src)
    then have "rpcGenerator_literalFields (E\<lparr>rand_src := 3\<rparr>) g r ! 25 =
      rpcGenerator_literalFields (E\<lparr>rand_src := 7\<rparr>) g r ! 25"
      by simp
    then show False
      by (simp add: literalFields_nth_25 rand_Intn_3_7 itoa_3_7 Field_def)
  qed
  show "apply_field (rpcGenerator_literalFields (E\<lparr>rand_src := 3\<rparr>) g r ! 25)
     ''_userExampleNO       = 2'' = ''_userExampleNO       = 3''"
    by (simp add: literalFields_nth_25 rand_Intn_3_7 itoa_3_7 apply_field_def Field_def
        field_norm_def lower_char_def upper_lower_def)
  show "apply_field (rpcGenerator_literalFields (E\<lparr>rand_src := 7\<rparr>) g r ! 25)
     ''_userExampleNO       = 2'' = ''_userExampleNO       = 7''"
    by (simp add: literalFields_nth_25 rand_Intn_3_7 itoa_3_7 apply_field_def Field_def
        field_norm_def lower_char_def upper_lower_def)
qed

theorem C9_error_code_line_is_random_witness:
  "rand_Intn E0 100 = 7 \<and>
   Field ''_userExampleNO       = 2'' ''_userExampleNO       = 7''
     \<in> set (rpcGenerator_addFields E0 g_shop r0) \<and>
   rpcGenerator_addFields (E0\<lparr>rand_src := 3\<rparr>) g_shop r0 \<noteq>
     rpcGenerator_addFields (E0\<lparr>rand_src := 7\<rparr>) g_shop r0"
proof -
  have 7: "rand_Intn E0 100 = 7" by (simp add: rand_Intn_def E0_def)
  from C9_error_code_line_is_random[of E0 g_shop r0] 7 show ?thesis
    by (simp add: itoa_3_7)
qed

subsection \<open>The broad rule and the narrow rule\<close>




















subsection \<open>Empty entries in the model command\<close>

text \<open>
  The model command never calls the collaborator for an empty table name: its loop tests
  every entry of the list.
\<close>

lemma ModelCommand_body_tables:
  assumes "ModelCommand_body E t st = (res, st')"
  shows "\<exists>evs. trace (st_world st') = trace (st_world st) @ evs \<and>
           (\<forall>a \<in> set (generate_calls evs). DBTable a \<noteq> [])"
  using assms
  by (auto simp: ModelCommand_body_def Let_def
      split: if_splits sum.splits prod.splits
      dest!: modelGenerator_generateCode_trace)

lemma ModelCommand_skips_empty:
  "\<forall>a \<in> set (generate_calls (new_events w (snd (ModelCommand E fl w)))). DBTable a \<noteq> []"
proof -
  let ?st = "ModelCommand_start fl w"
  let ?I = "\<lambda>s. \<exists>evs. trace (st_world s) = trace w @ evs \<and>
           (\<forall>a \<in> set (generate_calls evs). DBTable a \<noteq> [])"
  obtain res st' where
    l: "for_range (ModelCommand_body E) (strings_Split (mflag_dbTables fl) CHR '','') ?st =
          (res, st')"
    by (cases "for_range (ModelCommand_body E) (strings_Split (mflag_dbTables fl) CHR '','') ?st")
  have "?I st'"
  proof (rule for_range_invariant[where I = ?I, OF l])
    show "?I ?st" by (simp add: ModelCommand_start_def)
  next
    fix x s r s'
    assume I: "?I s" and b: "ModelCommand_body E x s = (r, s')"
    from ModelCommand_body_tables[OF b] I show "?I s'" by fastforce
  qed
  then obtain evs where tr: "trace (st_world st') = trace w @ evs"
    and q: "\<forall>a \<in> set (generate_calls evs). DBTable a \<noteq> []"
    by (elim exE conjE) (rule that)
  show ?thesis
  proof (cases res)
    case None
    with l tr have "trace (snd (ModelCommand E fl w)) =
        trace w @ (evs @ [Printf ModelUsingHelp, Printf (ModelSuccess (st_outPath st'))])"
      by (simp add: ModelCommand_alt ModelCommand_loop_def)
    from new_events_append[OF this] q show ?thesis by simp
  next
    case (Some e)
    with l tr have "trace (snd (ModelCommand E fl w)) = trace w @ evs"
      by (simp add: ModelCommand_alt ModelCommand_loop_def)
    from new_events_append[OF this] q show ?thesis by simp
  qed
qed

end
